theory Spec2Isabelle
  imports Complex_Main "HOL-Library.Sublist"
begin

section \<open>Python strings\<close>

text \<open>
  A Python \<open>str\<close> is modelled as a \<open>string\<close> (a list of \<open>char\<close>), one \<open>char\<close> per code
  point. The model is exact on ASCII text: the character classes below are the ASCII part of
  what \<open>str.lower\<close>, \<open>str.strip\<close>, \<open>str.split\<close>, \<open>\d\<close>, \<open>[a-zA-Z]\<close> and \<open>float\<close> use in
  CPython; a \<open>char\<close> above \<open>0x7F\<close> is an opaque symbol (no case, no digit, no space).
\<close>

definition ascii_uppercase :: string where
  "ascii_uppercase = ''ABCDEFGHIJKLMNOPQRSTUVWXYZ''"

definition ascii_lowercase :: string where
  "ascii_lowercase = ''abcdefghijklmnopqrstuvwxyz''"

definition ascii_digits :: string where
  "ascii_digits = ''0123456789''"

text \<open>\<open>str.isspace\<close> on ASCII: TAB, LF, VT, FF, CR, FS, GS, RS, US and the space.\<close>

definition str_whitespace :: string where
  "str_whitespace = [CHR 0x09, CHR 0x0A, CHR 0x0B, CHR 0x0C, CHR 0x0D,
                     CHR 0x1C, CHR 0x1D, CHR 0x1E, CHR 0x1F, CHR 0x20]"

text \<open>The whitespace that \<open>float\<close> itself skips around an ASCII literal (C's \<open>isspace\<close>).\<close>

definition c_whitespace :: string where
  "c_whitespace = [CHR 0x09, CHR 0x0A, CHR 0x0B, CHR 0x0C, CHR 0x0D, CHR 0x20]"

definition is_digit :: "char \<Rightarrow> bool" where
  "is_digit c = (c \<in> set ascii_digits)"

definition is_alpha :: "char \<Rightarrow> bool" where
  "is_alpha c = (c \<in> set ascii_uppercase \<or> c \<in> set ascii_lowercase)"

definition is_space :: "char \<Rightarrow> bool" where
  "is_space c = (c \<in> set str_whitespace)"

definition is_c_space :: "char \<Rightarrow> bool" where
  "is_c_space c = (c \<in> set c_whitespace)"

fun translate :: "string \<Rightarrow> string \<Rightarrow> char \<Rightarrow> char" where
  "translate (a # as) (b # bs) c = (if c = a then b else translate as bs c)"
| "translate _ _ c = c"

definition lower_char :: "char \<Rightarrow> char" where
  "lower_char c = translate ascii_uppercase ascii_lowercase c"

definition upper_char :: "char \<Rightarrow> char" where
  "upper_char c = translate ascii_lowercase ascii_uppercase c"

text \<open>\<open>s.lower()\<close>\<close>

definition lower :: "string \<Rightarrow> string" where
  "lower s = map lower_char s"

text \<open>\<open>s.strip()\<close>\<close>

definition strip :: "string \<Rightarrow> string" where
  "strip s = rev (dropWhile is_space (rev (dropWhile is_space s)))"

text \<open>\<open>s.rstrip('s')\<close>: every trailing \<open>s\<close> is removed, not only one.\<close>

definition rstrip_s :: "string \<Rightarrow> string" where
  "rstrip_s s = rev (dropWhile (\<lambda>c. c = CHR ''s'') (rev s))"

text \<open>
  \<open>s.split()\<close>: the maximal runs of non-whitespace characters, in order. The first argument
  is the word being read.
\<close>

fun split_from :: "string \<Rightarrow> string \<Rightarrow> string list" where
  "split_from w [] = (if w = [] then [] else [w])"
| "split_from w (c # cs) =
     (if is_space c then (if w = [] then split_from [] cs else w # split_from [] cs)
      else split_from (w @ [c]) cs)"

definition split :: "string \<Rightarrow> string list" where
  "split s = split_from [] s"

text \<open>\<open>sep.join(xs)\<close>\<close>

fun join :: "string \<Rightarrow> string list \<Rightarrow> string" where
  "join sep [] = []"
| "join sep [x] = x"
| "join sep (x # y # ys) = x @ sep @ join sep (y # ys)"

text \<open>\<open>x in y\<close> on strings: \<open>x\<close> occurs in \<open>y\<close> as a contiguous block.\<close>

fun starts_with :: "string \<Rightarrow> string \<Rightarrow> bool" where
  "starts_with [] ys = True"
| "starts_with (x # xs) [] = False"
| "starts_with (x # xs) (y # ys) = (x = y \<and> starts_with xs ys)"

fun str_in :: "string \<Rightarrow> string \<Rightarrow> bool" where
  "str_in x [] = (x = [])"
| "str_in x (c # cs) = (starts_with x (c # cs) \<or> str_in x cs)"

text \<open>\<open>str(n)\<close> for an \<open>int\<close>.\<close>

definition digit_char :: "nat \<Rightarrow> char" where
  "digit_char d = ascii_digits ! (d mod 10)"

function str_of_nat :: "nat \<Rightarrow> string" where
  "str_of_nat n =
     (if n < 10 then [digit_char n] else str_of_nat (n div 10) @ [digit_char (n mod 10)])"
  by pat_completeness auto
termination
  by (relation "measure id") auto

declare str_of_nat.simps [simp del]

definition str_of_int :: "int \<Rightarrow> string" where
  "str_of_int i = (if i < 0 then ''-'' @ str_of_nat (nat (- i)) else str_of_nat (nat i))"

fun digit_val :: "string \<Rightarrow> char \<Rightarrow> nat" where
  "digit_val [] c = 0"
| "digit_val (d # ds) c = (if c = d then 0 else Suc (digit_val ds c))"

text \<open>The number a string of decimal digits denotes.\<close>

definition nat_of_digits :: "string \<Rightarrow> nat" where
  "nat_of_digits ds = foldl (\<lambda>a c. 10 * a + digit_val ascii_digits c) 0 ds"


section \<open>Python floats\<close>

text \<open>
  A \<open>float\<close> is one of the three special values or a finite number. Finite numbers are
  idealised as rationals: the model has IEEE 754's treatment of infinities and NaN and its
  comparisons, but neither rounding nor overflow (and \<open>-0.0\<close> is \<open>0\<close>). No statement below
  depends on a rounded digit.
\<close>

datatype pyfloat = Fin rat | PInf | NInf | NaN

fun fneg :: "pyfloat \<Rightarrow> pyfloat" where
  "fneg (Fin a) = Fin (- a)"
| "fneg PInf = NInf"
| "fneg NInf = PInf"
| "fneg NaN = NaN"

fun fadd :: "pyfloat \<Rightarrow> pyfloat \<Rightarrow> pyfloat" where
  "fadd NaN _ = NaN"
| "fadd _ NaN = NaN"
| "fadd (Fin a) (Fin b) = Fin (a + b)"
| "fadd PInf NInf = NaN"
| "fadd NInf PInf = NaN"
| "fadd PInf _ = PInf"
| "fadd NInf _ = NInf"
| "fadd (Fin a) PInf = PInf"
| "fadd (Fin a) NInf = NInf"

definition fsub :: "pyfloat \<Rightarrow> pyfloat \<Rightarrow> pyfloat" where
  "fsub a b = fadd a (fneg b)"

definition inf_signed :: "bool \<Rightarrow> pyfloat" where
  "inf_signed negative = (if negative then NInf else PInf)"

fun fsign :: "pyfloat \<Rightarrow> int" where
  "fsign (Fin a) = (if a < 0 then - 1 else if a = 0 then 0 else 1)"
| "fsign PInf = 1"
| "fsign NInf = - 1"
| "fsign NaN = 0"

fun fmul :: "pyfloat \<Rightarrow> pyfloat \<Rightarrow> pyfloat" where
  "fmul NaN _ = NaN"
| "fmul _ NaN = NaN"
| "fmul (Fin a) (Fin b) = Fin (a * b)"
| "fmul x y = (if fsign x * fsign y = 0 then NaN else inf_signed (fsign x * fsign y < 0))"

text \<open>
  \<open>x / y\<close>. Python raises \<open>ZeroDivisionError\<close> for a zero divisor; the only divisors of this
  program are the factors of the unit table, none of which is zero (lemma
  \<open>factor_positive\<close>), so that case is given the value NaN here and never reached.
\<close>

fun fdiv :: "pyfloat \<Rightarrow> pyfloat \<Rightarrow> pyfloat" where
  "fdiv NaN _ = NaN"
| "fdiv _ NaN = NaN"
| "fdiv (Fin a) (Fin b) = (if b = 0 then NaN else Fin (a / b))"
| "fdiv (Fin a) _ = Fin 0"
| "fdiv x (Fin b) = (if b = 0 then NaN else inf_signed (fsign x * fsign (Fin b) < 0))"
| "fdiv _ _ = NaN"

text \<open>\<open>x > y\<close> and \<open>x == y\<close>: every comparison with NaN is false.\<close>

fun fgt :: "pyfloat \<Rightarrow> pyfloat \<Rightarrow> bool" where
  "fgt NaN _ = False"
| "fgt _ NaN = False"
| "fgt (Fin a) (Fin b) = (a > b)"
| "fgt PInf PInf = False"
| "fgt PInf _ = True"
| "fgt NInf _ = False"
| "fgt (Fin a) PInf = False"
| "fgt (Fin a) NInf = True"

fun feq :: "pyfloat \<Rightarrow> pyfloat \<Rightarrow> bool" where
  "feq (Fin a) (Fin b) = (a = b)"
| "feq PInf PInf = True"
| "feq NInf NInf = True"
| "feq _ _ = False"

definition float_of_int :: "int \<Rightarrow> pyfloat" where
  "float_of_int i = Fin (of_int i)"

text \<open>\<open>x.is_integer()\<close>\<close>

fun is_integer :: "pyfloat \<Rightarrow> bool" where
  "is_integer (Fin a) = (of_int (floor a) = a)"
| "is_integer _ = False"

text \<open>
  \<open>round(x, 2)\<close> followed by \<open>str\<close>, for a value that is not an integer: the nearest
  multiple of \<open>1/100\<close>, ties to even, printed with one or two decimals as \<open>repr\<close> does.
  The infinities and NaN are returned by \<open>round\<close> as they are.
\<close>

definition round_half_even :: "rat \<Rightarrow> int" where
  "round_half_even x =
     (let f = floor x; d = x - of_int f
      in if d < 1 / 2 then f else if 1 / 2 < d then f + 1 else if even f then f else f + 1)"

definition repr_hundredths :: "bool \<Rightarrow> nat \<Rightarrow> string" where
  "repr_hundredths negative h =
     (if negative then ''-'' else []) @ str_of_nat (h div 100) @ ''.'' @
     (if h mod 10 = 0 then [digit_char ((h mod 100) div 10)]
      else [digit_char ((h mod 100) div 10), digit_char (h mod 10)])"

fun str_round2 :: "pyfloat \<Rightarrow> string" where
  "str_round2 (Fin a) = repr_hundredths (a < 0) (nat (abs (round_half_even (a * 100))))"
| "str_round2 PInf = ''inf''"
| "str_round2 NInf = ''-inf''"
| "str_round2 NaN = ''nan''"

text \<open>\<open>int(x)\<close> of a float that is an integer.\<close>

fun int_of_float :: "pyfloat \<Rightarrow> int" where
  "int_of_float (Fin a) = floor a"
| "int_of_float _ = 0"

subsection \<open>\<open>float(s)\<close>\<close>

text \<open>
  The literals \<open>float\<close> accepts: surrounding whitespace, a sign, then \<open>inf\<close>, \<open>infinity\<close> or
  \<open>nan\<close> in any case, or a decimal number with an optional fraction and exponent, where
  single underscores may separate digits. \<open>None\<close> is \<open>ValueError\<close>.
\<close>

text \<open>The digits of a digit part after its first digit, and what follows them.\<close>

fun more_digits :: "string \<Rightarrow> string \<times> string" where
  "more_digits [] = ([], [])"
| "more_digits [c] = (if is_digit c then ([c], []) else ([], [c]))"
| "more_digits (c # d # cs) =
     (if is_digit c then (case more_digits (d # cs) of (ds, r) \<Rightarrow> (c # ds, r))
      else if c = CHR ''_'' \<and> is_digit d then more_digits (d # cs)
      else ([], c # d # cs))"

definition digitpart :: "string \<Rightarrow> (string \<times> string) option" where
  "digitpart s =
     (case s of [] \<Rightarrow> None
      | c # cs \<Rightarrow> if is_digit c then (case more_digits cs of (ds, r) \<Rightarrow> Some (c # ds, r))
                 else None)"

definition parse_sign :: "string \<Rightarrow> bool \<times> string" where
  "parse_sign s =
     (case s of [] \<Rightarrow> (False, [])
      | c # cs \<Rightarrow> if c = CHR ''-'' then (True, cs) else if c = CHR ''+'' then (False, cs)
                 else (False, c # cs))"

definition fraction_of_digits :: "string \<Rightarrow> rat" where
  "fraction_of_digits fs = of_nat (nat_of_digits fs) / 10 ^ length fs"

definition parse_number :: "string \<Rightarrow> (rat \<times> string) option" where
  "parse_number s =
     (case s of
        [] \<Rightarrow> None
      | c # cs \<Rightarrow>
          if c = CHR ''.'' then
            (case digitpart cs of None \<Rightarrow> None
             | Some (fs, r) \<Rightarrow> Some (fraction_of_digits fs, r))
          else
            (case digitpart (c # cs) of None \<Rightarrow> None
             | Some (ds, r) \<Rightarrow>
                 (case r of
                    [] \<Rightarrow> Some (of_nat (nat_of_digits ds), [])
                  | p # r' \<Rightarrow>
                      if p = CHR ''.'' then
                        (case digitpart r' of
                           None \<Rightarrow> Some (of_nat (nat_of_digits ds), r')
                         | Some (fs, r'') \<Rightarrow>
                             Some (of_nat (nat_of_digits ds) + fraction_of_digits fs, r''))
                      else Some (of_nat (nat_of_digits ds), p # r'))))"

definition parse_exponent :: "string \<Rightarrow> int option" where
  "parse_exponent s =
     (case s of
        [] \<Rightarrow> Some 0
      | c # cs \<Rightarrow>
          if c = CHR ''e'' \<or> c = CHR ''E'' then
            (case parse_sign cs of
               (negative, r) \<Rightarrow>
                 (case digitpart r of
                    Some (ds, []) \<Rightarrow>
                      Some (if negative then - int (nat_of_digits ds) else int (nat_of_digits ds))
                  | _ \<Rightarrow> None))
          else None)"

definition scale10 :: "rat \<Rightarrow> int \<Rightarrow> rat" where
  "scale10 m e = (if 0 \<le> e then m * 10 ^ nat e else m / 10 ^ nat (- e))"

definition float_of_str :: "string \<Rightarrow> pyfloat option" where
  "float_of_str s =
     (let t = rev (dropWhile is_c_space (rev (dropWhile is_c_space s)))
      in case parse_sign t of
           (negative, r) \<Rightarrow>
             if lower r = ''inf'' \<or> lower r = ''infinity'' then Some (inf_signed negative)
             else if lower r = ''nan'' then Some NaN
             else
               (case parse_number r of
                  None \<Rightarrow> None
                | Some (m, r') \<Rightarrow>
                    (case parse_exponent r' of
                       None \<Rightarrow> None
                     | Some e \<Rightarrow> Some (Fin (scale10 (if negative then - m else m) e)))))"


section \<open>Unit algebra\<close>

datatype py_error = ValueError | TypeError | KeyError | HTTPException

text \<open>\<open>_get_unit_conversions\<close>: the table of factors to the base unit.\<close>

definition get_unit_conversions :: "(string \<times> int) list" where
  "get_unit_conversions =
     [(''g'', 1), (''gram'', 1), (''grams'', 1),
      (''kg'', 1000), (''kilo'', 1000), (''kilos'', 1000),
      (''kilogram'', 1000), (''kilograms'', 1000),
      (''ml'', 1), (''milliliter'', 1), (''milliliters'', 1),
      (''l'', 1000), (''liter'', 1000), (''liters'', 1000),
      (''piece'', 1), (''pieces'', 1), (''pcs'', 1), (''pc'', 1),
      (''whole'', 1), (''wholes'', 1)]"

text \<open>\<open>unit.lower().rstrip('s')\<close>, the normal form both \<open>_validate_unit\<close> and
  \<open>_convert_unit\<close> look up.\<close>

definition normalize_unit :: "string \<Rightarrow> string" where
  "normalize_unit u = rstrip_s (lower u)"

text \<open>The loop of \<open>_validate_unit\<close> that collects the similar units, in table order.\<close>

definition similar_units :: "string \<Rightarrow> string list" where
  "similar_units u =
     filter (\<lambda>valid_unit. str_in u valid_unit \<or> str_in valid_unit u)
       (map fst get_unit_conversions)"

text \<open>\<open>_validate_unit\<close>\<close>

definition validate_unit :: "string \<Rightarrow> bool \<times> string" where
  "validate_unit unit0 =
     (let u = normalize_unit unit0
      in if u \<in> set (map fst get_unit_conversions) then (True, u)
         else if similar_units u \<noteq> [] then
           (False, ''Did you mean: '' @ join '', '' (similar_units u) @ ''?'')
         else (False, ''Unsupported unit. Supported units are: g, kg, ml, l, piece''))"

text \<open>The dimension of a normalised unit as \<open>_convert_unit\<close> computes it.\<close>

definition unit_type :: "string \<Rightarrow> string" where
  "unit_type u =
     (if u \<in> set [''g'', ''gram'', ''kg'', ''kilo'', ''kilogram''] then ''weight''
      else if u \<in> set [''ml'', ''milliliter'', ''l'', ''liter''] then ''volume''
      else ''count'')"

text \<open>\<open>_convert_unit\<close>; \<open>None\<close> is Python's \<open>None\<close>.\<close>

definition convert_unit :: "pyfloat \<Rightarrow> string \<Rightarrow> string \<Rightarrow> pyfloat option" where
  "convert_unit v from_unit to_unit =
     (let f = normalize_unit from_unit; t = normalize_unit to_unit
      in case (map_of get_unit_conversions f, map_of get_unit_conversions t) of
           (Some ff, Some tf) \<Rightarrow>
             if unit_type f \<noteq> unit_type t then None
             else Some (fdiv (fmul v (float_of_int ff)) (float_of_int tf))
         | _ \<Rightarrow> None)"

text \<open>\<open>_format_unit\<close>\<close>

definition format_unit :: "pyfloat \<Rightarrow> string \<Rightarrow> string" where
  "format_unit v u =
     (if is_integer v then str_of_int (int_of_float v) else str_round2 v) @ '' '' @ u"

text \<open>
  The regular expression \<open>^(\d+(?:\.\d+)?)([a-zA-Z]+)$\<close> of \<open>_parse_amount_unit\<close>, matched
  against a stripped string: the two groups when it matches.
\<close>

definition re_match_amount :: "string \<Rightarrow> (string \<times> string) option" where
  "re_match_amount s =
     (let ds = takeWhile is_digit s; r = dropWhile is_digit s
      in if ds = [] then None
         else
           (case r of
              [] \<Rightarrow> None
            | c # cs \<Rightarrow>
                if c = CHR ''.'' \<and> takeWhile is_digit cs \<noteq> [] then
                  (let fs = takeWhile is_digit cs; u = dropWhile is_digit cs
                   in if u \<noteq> [] \<and> list_all is_alpha u then Some (ds @ ''.'' @ fs, u) else None)
                else if list_all is_alpha r then Some (ds, r)
                else None))"

text \<open>\<open>_parse_amount_unit\<close>; \<open>Inl ValueError\<close> is the \<open>ValueError\<close> it raises.\<close>

definition parse_amount_unit :: "string \<Rightarrow> py_error + (pyfloat \<times> string)" where
  "parse_amount_unit amount_str0 =
     (let amount_str = strip amount_str0
      in case float_of_str amount_str of
           Some v \<Rightarrow> Inr (v, ''piece'')
         | None \<Rightarrow>
             (case re_match_amount amount_str of
                Some (g1, g2) \<Rightarrow>
                  (case float_of_str g1 of Some v \<Rightarrow> Inr (v, g2) | None \<Rightarrow> Inl ValueError)
              | None \<Rightarrow>
                  (case split amount_str of
                     [p0, p1] \<Rightarrow>
                       (case float_of_str p0 of
                          Some v \<Rightarrow> Inr (v, p1)
                        | None \<Rightarrow> Inl ValueError)
                   | _ \<Rightarrow> Inl ValueError)))"


section \<open>Inventory data\<close>

text \<open>An inventory entry or a delta item of a classification: \<open>{"name": ..., "amount": ...}\<close>,
  both fields strings.\<close>

record item =
  name :: string
  amount :: string

text \<open>
  A Python \<open>dict\<close> with string keys, in insertion order: assigning to a key that is present
  keeps its position, a new key goes to the end.
\<close>

type_synonym 'v pydict = "(string \<times> 'v) list"

definition dict_get :: "'v pydict \<Rightarrow> string \<Rightarrow> 'v option" where
  "dict_get d k = map_of d k"

fun dict_set :: "'v pydict \<Rightarrow> string \<Rightarrow> 'v \<Rightarrow> 'v pydict" where
  "dict_set [] k v = [(k, v)]"
| "dict_set ((k', v') # d) k v = (if k' = k then (k, v) # d else (k', v') # dict_set d k v)"

text \<open>\<open>del d[k]\<close>: afterwards the dict has no entry for \<open>k\<close>.\<close>

definition dict_del :: "'v pydict \<Rightarrow> string \<Rightarrow> 'v pydict" where
  "dict_del d k = filter (\<lambda>kv. fst kv \<noteq> k) d"

definition dict_values :: "'v pydict \<Rightarrow> 'v list" where
  "dict_values d = map snd d"

text \<open>
  The text-normalisation capability behind \<open>normalize_item_name\<close>: the content of the chat
  completion for an item name, \<open>None\<close> when the call raises. It is an opaque pure function.
\<close>

type_synonym normalizer = "string \<Rightarrow> string option"

text \<open>\<open>normalize_item_name\<close>\<close>

definition normalize_item_name :: "normalizer \<Rightarrow> string \<Rightarrow> string" where
  "normalize_item_name llm item_name =
     (case llm item_name of Some content \<Rightarrow> lower (strip content) | None \<Rightarrow> lower item_name)"

text \<open>The loop that builds \<open>current_items\<close> from the stored inventory.\<close>

fun index_inventory :: "normalizer \<Rightarrow> item list \<Rightarrow> item pydict \<Rightarrow> item pydict" where
  "index_inventory llm [] current_items = current_items"
| "index_inventory llm (it # its) current_items =
     index_inventory llm its (dict_set current_items (normalize_item_name llm (name it)) it)"

text \<open>
  An entry of \<open>removed_items\<close> or \<open>updated_items\<close>: a dict with the key \<open>name\<close> and, each
  optional, \<open>amount\<close>, \<open>added\<close> and \<open>error\<close>.
\<close>

record outcome =
  o_name :: string
  o_amount :: "string option"
  o_added :: "string option"
  o_error :: "string option"

definition is_error :: "outcome \<Rightarrow> bool" where
  "is_error e = (o_error e \<noteq> None)"


section \<open>Inventory reconciler: \<open>remove_inventory\<close>\<close>

text \<open>One iteration of the loop over \<open>items_to_remove\<close>, on \<open>(current_items, removed_items)\<close>.\<close>

definition remove_item ::
  "normalizer \<Rightarrow> item pydict \<times> outcome list \<Rightarrow> item \<Rightarrow> item pydict \<times> outcome list" where
  "remove_item llm st it =
     (case st of (current_items, removed_items) \<Rightarrow>
      let normalized_name = normalize_item_name llm (name it)
      in case dict_get current_items normalized_name of
           None \<Rightarrow>
             (current_items,
              removed_items @ [\<lparr>o_name = name it, o_amount = None, o_added = None,
                                 o_error = Some ''Item not found in inventory''\<rparr>])
         | Some current_item \<Rightarrow>
             if lower (amount it) = ''all'' then
               (dict_del current_items normalized_name,
                removed_items @ [\<lparr>o_name = name current_item,
                                   o_amount = Some (amount current_item),
                                   o_added = None, o_error = None\<rparr>])
             else
               (let invalid =
                      (dict_del current_items normalized_name,
                       removed_items @ [\<lparr>o_name = name current_item,
                                          o_amount = Some (amount current_item),
                                          o_added = None,
                                          o_error = Some ''Invalid amount format''\<rparr>])
                in case parse_amount_unit (amount current_item) of
                     Inl _ \<Rightarrow> invalid
                   | Inr (current_value, current_unit) \<Rightarrow>
                       (case parse_amount_unit (amount it) of
                          Inl _ \<Rightarrow> invalid
                        | Inr (remove_value0, remove_unit) \<Rightarrow>
                            (case (if current_unit \<noteq> remove_unit
                                   then convert_unit remove_value0 remove_unit current_unit
                                   else Some remove_value0) of
                               None \<Rightarrow>
                                 (current_items,
                                  removed_items @
                                    [\<lparr>o_name = name current_item,
                                      o_amount = Some (amount current_item),
                                      o_added = None,
                                      o_error = Some (''Cannot convert between '' @ remove_unit
                                                        @ '' and '' @ current_unit)\<rparr>])
                             | Some remove_value \<Rightarrow>
                                 if fgt current_value remove_value then
                                   (dict_set current_items normalized_name
                                      (current_item\<lparr>amount :=
                                         format_unit (fsub current_value remove_value)
                                           current_unit\<rparr>),
                                    removed_items @
                                      [\<lparr>o_name = name current_item,
                                        o_amount = Some (format_unit remove_value current_unit),
                                        o_added = None, o_error = None\<rparr>])
                                 else if feq current_value remove_value then
                                   (dict_del current_items normalized_name,
                                    removed_items @
                                      [\<lparr>o_name = name current_item,
                                        o_amount = Some (amount current_item),
                                        o_added = None, o_error = None\<rparr>])
                                 else
                                   (current_items,
                                    removed_items @
                                      [\<lparr>o_name = name current_item,
                                        o_amount = Some (amount current_item),
                                        o_added = None,
                                        o_error =
                                          Some ''Requested amount exceeds available amount''\<rparr>])))))"

fun remove_loop ::
  "normalizer \<Rightarrow> item list \<Rightarrow> item pydict \<times> outcome list \<Rightarrow> item pydict \<times> outcome list" where
  "remove_loop llm [] st = st"
| "remove_loop llm (it # its) st = remove_loop llm its (remove_item llm st it)"


section \<open>Inventory reconciler: \<open>update_inventory\<close>\<close>

text \<open>One iteration of the loop over \<open>new_items\<close>, on
  \<open>(current_items, updated_items, has_errors)\<close>.\<close>

definition update_failed ::
  "item pydict \<times> outcome list \<times> bool \<Rightarrow> string \<Rightarrow> string \<Rightarrow> string \<Rightarrow>
   item pydict \<times> outcome list \<times> bool" where
  "update_failed st nm am msg =
     (case st of (current_items, updated_items, has_errors) \<Rightarrow>
        (current_items,
         updated_items @ [\<lparr>o_name = nm, o_amount = Some am, o_added = None, o_error = Some msg\<rparr>],
         True))"

definition update_item ::
  "normalizer \<Rightarrow> item pydict \<times> outcome list \<times> bool \<Rightarrow> item \<Rightarrow>
   item pydict \<times> outcome list \<times> bool" where
  "update_item llm st new_item =
     (case st of (current_items, updated_items, has_errors) \<Rightarrow>
      let normalized_name = normalize_item_name llm (name new_item)
      in case parse_amount_unit (amount new_item) of
           Inl _ \<Rightarrow> update_failed st (name new_item) (amount new_item) ''Invalid amount format''
         | Inr (new_value, new_unit) \<Rightarrow>
             (case validate_unit new_unit of
                (False, unit_message) \<Rightarrow>
                  update_failed st (name new_item) (amount new_item) unit_message
              | (True, _) \<Rightarrow>
                  (case dict_get current_items normalized_name of
                     None \<Rightarrow>
                       (dict_set current_items normalized_name
                          \<lparr>name = name new_item, amount = format_unit new_value new_unit\<rparr>,
                        updated_items @
                          [\<lparr>o_name = name new_item,
                            o_amount = Some (format_unit new_value new_unit),
                            o_added = Some (format_unit new_value new_unit),
                            o_error = None\<rparr>],
                        has_errors)
                   | Some current_item \<Rightarrow>
                       (case parse_amount_unit (amount current_item) of
                          Inl _ \<Rightarrow>
                            update_failed st (name new_item) (amount new_item)
                              ''Invalid amount format''
                        | Inr (current_value, current_unit) \<Rightarrow>
                            (case validate_unit current_unit of
                               (False, unit_message) \<Rightarrow>
                                 update_failed st (name new_item) (amount current_item)
                                   (''Current amount has '' @ unit_message)
                             | (True, _) \<Rightarrow>
                                 (case (if current_unit \<noteq> new_unit
                                        then convert_unit new_value new_unit current_unit
                                        else Some new_value) of
                                    None \<Rightarrow>
                                      update_failed st (name new_item) (amount new_item)
                                        (''Cannot convert between '' @ new_unit @ '' and ''
                                           @ current_unit)
                                  | Some added_value \<Rightarrow>
                                      (dict_set current_items normalized_name
                                         (current_item\<lparr>amount :=
                                            format_unit (fadd current_value added_value)
                                              current_unit\<rparr>),
                                       updated_items @
                                         [\<lparr>o_name = name new_item,
                                           o_amount =
                                             Some (format_unit (fadd current_value added_value)
                                                     current_unit),
                                           o_added = Some (format_unit added_value current_unit),
                                           o_error = None\<rparr>],
                                       has_errors)))))))"

fun update_loop ::
  "normalizer \<Rightarrow> item list \<Rightarrow> item pydict \<times> outcome list \<times> bool \<Rightarrow>
   item pydict \<times> outcome list \<times> bool" where
  "update_loop llm [] st = st"
| "update_loop llm (new_item # new_items) st =
     update_loop llm new_items (update_item llm st new_item)"


section \<open>Dispatch: the inventory handlers of \<open>process_classified_message\<close>\<close>

text \<open>
  The code points above \<open>U+007F\<close> in the literals of the source, each standing for one
  character of the response: U+1F5D1, U+FE0F, U+2022, U+274C, U+1F4CB, U+26A0, U+2705,
  U+1F373, U+1F4CC, U+1F4DD, U+1F6D2, U+23F1, U+2B50 and U+2500.
\<close>

definition u_wastebasket :: char where "u_wastebasket = CHR 0x80"
definition u_vs16 :: char where "u_vs16 = CHR 0x81"
definition u_bullet :: char where "u_bullet = CHR 0x82"
definition u_cross_mark :: char where "u_cross_mark = CHR 0x83"
definition u_clipboard :: char where "u_clipboard = CHR 0x84"
definition u_warning :: char where "u_warning = CHR 0x86"
definition u_check_mark :: char where "u_check_mark = CHR 0x87"
definition u_cooking :: char where "u_cooking = CHR 0x88"
definition u_pushpin :: char where "u_pushpin = CHR 0x89"
definition u_memo :: char where "u_memo = CHR 0x8A"
definition u_cart :: char where "u_cart = CHR 0x8B"
definition u_stopwatch :: char where "u_stopwatch = CHR 0x8C"
definition u_star :: char where "u_star = CHR 0x8D"
definition u_box_line :: char where "u_box_line = CHR 0x8E"

text \<open>
  The classification handed to \<open>process_classified_message\<close>: its \<open>action\<close>, its \<open>items\<close>
  (\<open>classification.get("items", [])\<close>) and the \<open>remove_all\<close> flag the classifier's prompt asks
  for.
\<close>

record classification =
  action :: string
  items :: "item list"
  remove_all :: bool

text \<open>
  What a handler does: the text it answers with, and the list it writes to
  \<open>kitchen_inventory.ingredients\<close> with \<open>update_one\<close> (\<open>None\<close> when it makes no such call).
  The call is taken to return; were it to raise, the handler's \<open>except Exception\<close> would
  answer with its apology instead.
\<close>

record reply =
  response :: string
  db_update :: "item list option"

text \<open>The lines of a response, one per outcome; \<open>None\<close> is the \<open>KeyError\<close> of reading a key
  the outcome does not have.\<close>

fun removed_lines :: "outcome list \<Rightarrow> string option" where
  "removed_lines [] = Some []"
| "removed_lines (e # es) =
     (case (case o_error e of
              Some err \<Rightarrow> Some ([u_bullet] @ '' '' @ o_name e @ '' - '' @ err @ [CHR 0x0A])
            | None \<Rightarrow>
                (case o_amount e of
                   Some am \<Rightarrow> Some ([u_bullet] @ '' '' @ o_name e @ '' ('' @ am @ '')'' @ [CHR 0x0A])
                 | None \<Rightarrow> None)) of
        None \<Rightarrow> None
      | Some line \<Rightarrow> (case removed_lines es of None \<Rightarrow> None | Some ls \<Rightarrow> Some (line @ ls)))"

definition inventory_error_response :: string where
  "inventory_error_response =
     [u_cross_mark] @ '' Sorry, there was an error updating your inventory. Please try again.''"

text \<open>The \<open>remove_inventory\<close> branch. The flag \<open>remove_all\<close> is part of its input and is not
  read anywhere in the branch.\<close>

definition remove_inventory :: "normalizer \<Rightarrow> item list \<Rightarrow> classification \<Rightarrow> reply" where
  "remove_inventory llm current_inventory cls =
     (case remove_loop llm (items cls) (index_inventory llm current_inventory [], []) of
        (current_items, removed_items) \<Rightarrow>
          let updated_inventory = dict_values current_items
          in \<lparr>response =
                (if removed_items \<noteq> [] then
                   (case removed_lines removed_items of
                      None \<Rightarrow> inventory_error_response
                    | Some ls \<Rightarrow>
                        [u_wastebasket, u_vs16] @ '' Updated your kitchen inventory!''
                        @ [CHR 0x0A, CHR 0x0A] @ ''Removed items:'' @ [CHR 0x0A] @ ls
                        @ [CHR 0x0A] @ ''Remaining items: ''
                        @ str_of_nat (length updated_inventory))
                 else ''No items were removed from your inventory.''),
              db_update = Some updated_inventory\<rparr>)"

fun updated_lines :: "outcome list \<Rightarrow> string option" where
  "updated_lines [] = Some []"
| "updated_lines (e # es) =
     (case (case o_amount e of
              None \<Rightarrow> None
            | Some am \<Rightarrow>
                (case o_error e of
                   Some err \<Rightarrow>
                     Some ([u_bullet] @ '' '' @ o_name e @ '' ('' @ am @ '') - '' @ err
                           @ [CHR 0x0A])
                 | None \<Rightarrow>
                     (case o_added e of
                        Some ad \<Rightarrow>
                          Some ([u_bullet] @ '' '' @ o_name e @ '' ('' @ am @ '') [+'' @ ad
                                @ '']'' @ [CHR 0x0A])
                      | None \<Rightarrow> None))) of
        None \<Rightarrow> None
      | Some line \<Rightarrow> (case updated_lines es of None \<Rightarrow> None | Some ls \<Rightarrow> Some (line @ ls)))"

text \<open>The \<open>update_inventory\<close> branch.\<close>

definition update_inventory :: "normalizer \<Rightarrow> item list \<Rightarrow> classification \<Rightarrow> reply" where
  "update_inventory llm current_inventory cls =
     (case update_loop llm (items cls) (index_inventory llm current_inventory [], [], False) of
        (current_items, updated_items, has_errors) \<Rightarrow>
          \<lparr>response =
             (if updated_items \<noteq> [] then
                (case updated_lines updated_items of
                   None \<Rightarrow> inventory_error_response
                 | Some ls \<Rightarrow>
                     (if has_errors then
                        [u_warning, u_vs16]
                        @ '' Some items couldn'' @ [CHR 0x27]
                        @ ''t be added to your inventory:'' @ [CHR 0x0A, CHR 0x0A]
                      else
                        [u_check_mark] @ '' Updated your kitchen inventory!''
                        @ [CHR 0x0A, CHR 0x0A])
                     @ ''Items:'' @ [CHR 0x0A] @ ls
                     @ (if \<not> has_errors then
                          [CHR 0x0A] @ ''Total items in inventory: ''
                          @ str_of_nat (length current_items)
                        else []))
              else ''No new items were added to your inventory.''),
           db_update = (if \<not> has_errors then Some (dict_values current_items) else None)\<rparr>)"


section \<open>The unit algebra as the specification words it\<close>

text \<open>
  The dimension class of each alias of the unit table, as the comments of
  \<open>_get_unit_conversions\<close> group them: weight (base unit grams), volume (base unit
  millilitres) and count.
\<close>

datatype dimension = Weight | Volume | Count

definition unit_dimension :: "string \<Rightarrow> dimension option" where
  "unit_dimension u =
     (if u \<in> set [''g'', ''gram'', ''grams'', ''kg'', ''kilo'', ''kilos'', ''kilogram'',
                   ''kilograms''] then Some Weight
      else if u \<in> set [''ml'', ''milliliter'', ''milliliters'', ''l'', ''liter'', ''liters'']
        then Some Volume
      else if u \<in> set [''piece'', ''pieces'', ''pcs'', ''pc'', ''whole'', ''wholes'']
        then Some Count
      else None)"


text \<open>
  The normal form of a unit text in the specification's words: lowercased, with a single
  trailing \<open>s\<close> removed.
\<close>

definition spec_normalize_unit :: "string \<Rightarrow> string" where
  "spec_normalize_unit u =
     (let l = lower u in if l \<noteq> [] \<and> last l = CHR ''s'' then butlast l else l)"


section \<open>The three forms of an amount\<close>








section \<open>Intent classifier: \<open>classify_message\<close>\<close>

text \<open>What \<open>json.loads\<close> returns.\<close>

datatype json =
    JNull
  | JBool bool
  | JNumber rat
  | JString string
  | JArray "json list"
  | JObject "(string \<times> json) list"

text \<open>
  The classification capability, as \<open>classify_message\<close> sees it: the chat completion raises
  (or its content cannot be read), or it has a content, which \<open>json.loads\<close> parses to a
  value or rejects with \<open>JSONDecodeError\<close> (\<open>None\<close>).
\<close>

datatype completion = ProviderError | Content "json option"

text \<open>\<open>key in x\<close> for a string \<open>key\<close>: a key of a dict, an element of a list, a substring of
  a string, and \<open>TypeError\<close> on the other values.\<close>

definition py_contains :: "string \<Rightarrow> json \<Rightarrow> py_error + bool" where
  "py_contains key x =
     (case x of
        JObject kvs \<Rightarrow> Inr (key \<in> set (map fst kvs))
      | JArray xs \<Rightarrow> Inr (JString key \<in> set xs)
      | JString s \<Rightarrow> Inr (str_in key s)
      | _ \<Rightarrow> Inl TypeError)"

text \<open>\<open>x[key]\<close> for a string \<open>key\<close>: defined on a dict that has the key.\<close>

definition py_getitem :: "json \<Rightarrow> string \<Rightarrow> py_error + json" where
  "py_getitem x key =
     (case x of
        JObject kvs \<Rightarrow> (case map_of kvs key of Some v \<Rightarrow> Inr v | None \<Rightarrow> Inl KeyError)
      | _ \<Rightarrow> Inl TypeError)"

definition valid_actions :: "string list" where
  "valid_actions = [''get_recipes'', ''general_conversation'', ''update_inventory'',
                    ''get_inventory'', ''remove_inventory'']"

text \<open>The loop over \<open>classification["items"]\<close>: the first item that is no dict, or has no
  \<open>name\<close> or no \<open>amount\<close>, raises \<open>ValueError\<close>.\<close>

fun check_items :: "json list \<Rightarrow> py_error + unit" where
  "check_items [] = Inr ()"
| "check_items (it # its) =
     (case it of
        JObject kvs \<Rightarrow>
          if ''name'' \<notin> set (map fst kvs) \<or> ''amount'' \<notin> set (map fst kvs) then Inl ValueError
          else check_items its
      | _ \<Rightarrow> Inl ValueError)"

text \<open>The validation inside the inner \<open>try\<close>, on the parsed classification.\<close>

definition validate_classification :: "json \<Rightarrow> py_error + json" where
  "validate_classification c =
     (case py_contains ''action'' c of
        Inl e \<Rightarrow> Inl e
      | Inr False \<Rightarrow> Inl ValueError
      | Inr True \<Rightarrow>
          (case py_getitem c ''action'' of
             Inl e \<Rightarrow> Inl e
           | Inr a \<Rightarrow>
               if a \<notin> set (map JString valid_actions) then Inl ValueError
               else if a \<in> set [JString ''update_inventory'', JString ''remove_inventory''] then
                 (case py_contains ''items'' c of
                    Inl e \<Rightarrow> Inl e
                  | Inr False \<Rightarrow> Inl ValueError
                  | Inr True \<Rightarrow>
                      (case py_getitem c ''items'' of
                         Inl e \<Rightarrow> Inl e
                       | Inr (JArray its) \<Rightarrow>
                           (case check_items its of Inl e \<Rightarrow> Inl e | Inr _ \<Rightarrow> Inr c)
                       | Inr _ \<Rightarrow> Inl ValueError))
               else Inr c))"

definition general_conversation :: json where
  "general_conversation = JObject [(''action'', JString ''general_conversation'')]"

text \<open>\<open>classify_message\<close>: every exception ends in the outer \<open>except Exception\<close>.\<close>

definition classify_message :: "completion \<Rightarrow> json" where
  "classify_message r =
     (case r of
        ProviderError \<Rightarrow> general_conversation
      | Content None \<Rightarrow> general_conversation
      | Content (Some c) \<Rightarrow>
          (case validate_classification c of
             Inl _ \<Rightarrow> general_conversation
           | Inr c' \<Rightarrow> c'))"

text \<open>An item with both fields, and an intent: a dict whose action is one of the five.\<close>

definition well_formed_item :: "json \<Rightarrow> bool" where
  "well_formed_item it =
     (case it of
        JObject kvs \<Rightarrow> ''name'' \<in> set (map fst kvs) \<and> ''amount'' \<in> set (map fst kvs)
      | _ \<Rightarrow> False)"

definition is_intent :: "json \<Rightarrow> bool" where
  "is_intent c =
     (case c of
        JObject kvs \<Rightarrow>
          (case map_of kvs ''action'' of
             Some (JString a) \<Rightarrow> a \<in> set valid_actions
           | _ \<Rightarrow> False)
      | _ \<Rightarrow> False)"


section \<open>Dispatch: the other branches of \<open>process_classified_message\<close>\<close>

subsection \<open>\<open>get_inventory\<close>\<close>

text \<open>\<open>s.title()\<close> on ASCII text: a letter is upper-cased when the character before it is
  no letter, and lower-cased otherwise.\<close>

fun title_from :: "bool \<Rightarrow> string \<Rightarrow> string" where
  "title_from previous_cased [] = []"
| "title_from previous_cased (c # cs) =
     (if is_alpha c then
        (if previous_cased then lower_char c else upper_char c) # title_from True cs
      else c # title_from False cs)"

definition title :: "string \<Rightarrow> string" where
  "title s = title_from False s"

text \<open>The order of \<open>str\<close>: lexicographic, by code point.\<close>

fun str_le :: "string \<Rightarrow> string \<Rightarrow> bool" where
  "str_le [] ys = True"
| "str_le (x # xs) [] = False"
| "str_le (x # xs) (y # ys) =
     ((of_char x :: nat) < of_char y \<or> (x = y \<and> str_le xs ys))"

text \<open>\<open>sorted(d.items(), key=lambda x: x[0])\<close>, a stable sort.\<close>

fun insert_by_key :: "string \<times> 'v \<Rightarrow> (string \<times> 'v) list \<Rightarrow> (string \<times> 'v) list" where
  "insert_by_key x [] = [x]"
| "insert_by_key x (y # ys) =
     (if str_le (fst x) (fst y) then x # y # ys else y # insert_by_key x ys)"

definition sorted_by_key :: "(string \<times> 'v) list \<Rightarrow> (string \<times> 'v) list" where
  "sorted_by_key kvs = foldr insert_by_key kvs []"

text \<open>
  The secondary classification of the message: its \<open>type\<close> with the requested items or
  categories; any other \<open>type\<close> is \<open>ShowOther\<close>. The analyser and the categoriser are opaque
  capabilities; \<open>None\<close> stands for an exception while calling one or reading its answer.
\<close>

datatype analysis =
    ShowAll
  | ShowSpecific "string list"
  | ShowCategory "string list"
  | ShowOther

text \<open>The loop that groups the inventory by normalised name.\<close>

fun group_items :: "normalizer \<Rightarrow> item list \<Rightarrow> item list pydict \<Rightarrow> item list pydict" where
  "group_items llm [] normalized_groups = normalized_groups"
| "group_items llm (it # its) normalized_groups =
     (let normalized_name = normalize_item_name llm (name it)
      in group_items llm its
           (dict_set normalized_groups normalized_name
              (case dict_get normalized_groups normalized_name of
                 None \<Rightarrow> [it]
               | Some members \<Rightarrow> members @ [it])))"

fun filter_specific ::
  "normalizer \<Rightarrow> string list \<Rightarrow> item list pydict \<Rightarrow> item list pydict \<Rightarrow> item list pydict" where
  "filter_specific llm [] normalized_groups filtered_groups = filtered_groups"
| "filter_specific llm (x # xs) normalized_groups filtered_groups =
     (let normalized_item = normalize_item_name llm x
      in filter_specific llm xs normalized_groups
           (case dict_get normalized_groups normalized_item of
              Some members \<Rightarrow> dict_set filtered_groups normalized_item members
            | None \<Rightarrow> filtered_groups))"

fun filter_category ::
  "(string \<Rightarrow> string list option) \<Rightarrow> string list \<Rightarrow> item list pydict \<Rightarrow> item list pydict \<Rightarrow>
   item list pydict option" where
  "filter_category categorize categories [] filtered_groups = Some filtered_groups"
| "filter_category categorize categories ((normalized_name, members) # groups) filtered_groups =
     (case categorize normalized_name of
        None \<Rightarrow> None
      | Some item_categories \<Rightarrow>
          filter_category categorize categories groups
            (if \<exists>cat\<in>set item_categories. cat \<in> set categories
             then dict_set filtered_groups normalized_name members
             else filtered_groups))"

definition item_line :: "string \<Rightarrow> item \<Rightarrow> string" where
  "item_line lead it = lead @ name it @ '' ('' @ amount it @ '')'' @ [CHR 0x0A]"

fun inventory_lines :: "(string \<times> item list) list \<Rightarrow> string" where
  "inventory_lines [] = []"
| "inventory_lines ((normalized_name, members) # groups) =
     (case members of
        [it] \<Rightarrow> item_line ([u_bullet] @ '' '') it
      | _ \<Rightarrow> [u_bullet] @ '' '' @ title normalized_name @ '':'' @ [CHR 0x0A]
             @ concat (map (item_line ''  - '') members))
     @ inventory_lines groups"

definition inventory_empty_response :: string where
  "inventory_empty_response =
     ''Your kitchen inventory is empty. Add some ingredients to get started!''"

definition inventory_retrieve_error_response :: string where
  "inventory_retrieve_error_response =
     [u_cross_mark] @ '' Sorry, there was an error retrieving your inventory. Please try again.''"

text \<open>The user document, as far as the handlers read it: the stored ingredients and
  \<open>last_updated\<close> as \<open>strftime("%Y-%m-%d %H:%M")\<close> prints it.\<close>

record user =
  ingredients :: "item list"
  last_updated :: string

text \<open>The \<open>get_inventory\<close> branch; it writes nothing.\<close>

definition get_inventory ::
  "normalizer \<Rightarrow> (string \<Rightarrow> analysis option) \<Rightarrow> (string \<Rightarrow> string list option) \<Rightarrow>
   user \<Rightarrow> string \<Rightarrow> string" where
  "get_inventory llm analyze categorize usr message =
     (if ingredients usr = [] then inventory_empty_response
      else
        (case analyze message of
           None \<Rightarrow> inventory_retrieve_error_response
         | Some analysis \<Rightarrow>
             let normalized_groups = group_items llm (ingredients usr) []
             in case (case analysis of
                        ShowAll \<Rightarrow> Some normalized_groups
                      | ShowSpecific requested \<Rightarrow>
                          Some (filter_specific llm requested normalized_groups [])
                      | ShowCategory categories \<Rightarrow>
                          filter_category categorize categories normalized_groups []
                      | ShowOther \<Rightarrow> Some []) of
                  None \<Rightarrow> inventory_retrieve_error_response
                | Some filtered_groups \<Rightarrow>
                    if filtered_groups = [] then
                      (case analysis of
                         ShowSpecific _ \<Rightarrow>
                           [u_cross_mark]
                           @ '' None of the requested items were found in your inventory.''
                       | ShowCategory categories \<Rightarrow>
                           [u_cross_mark] @ '' No items found in the requested categories: ''
                           @ join '', '' categories
                       | _ \<Rightarrow> inventory_empty_response)
                    else
                      [u_clipboard] @ '' Your Kitchen Inventory:'' @ [CHR 0x0A, CHR 0x0A]
                      @ inventory_lines (sorted_by_key filtered_groups)
                      @ [CHR 0x0A] @ ''Total items shown: ''
                      @ str_of_nat (length filtered_groups)
                      @ (if length filtered_groups < length normalized_groups
                         then '' (of '' @ str_of_nat (length normalized_groups)
                              @ '' total items)''
                         else [])
                      @ [CHR 0x0A, CHR 0x0A] @ ''Last updated: '' @ last_updated usr))"

subsection \<open>\<open>get_recipes\<close>\<close>

text \<open>A recipe as \<open>generate_recipe_recommendations\<close> returns it.\<close>

record recipe =
  r_name :: string
  r_description :: string
  r_available :: "string list"
  r_needed :: "string list"
  r_difficulty :: string
  r_cooking_time :: string
  r_steps :: "string list"

text \<open>\<open>[f"{i+1}. {step}" for i, step in enumerate(steps)]\<close>, from index \<open>i\<close> on.\<close>

fun numbered_steps :: "nat \<Rightarrow> string list \<Rightarrow> string list" where
  "numbered_steps i [] = []"
| "numbered_steps i (step # steps) =
     (str_of_nat (i + 1) @ ''. '' @ step) # numbered_steps (i + 1) steps"

definition recipe_text :: "recipe \<Rightarrow> string" where
  "recipe_text r =
     [u_pushpin] @ '' '' @ r_name r @ [CHR 0x0A]
     @ [u_memo] @ '' '' @ r_description r @ [CHR 0x0A, CHR 0x0A]
     @ [u_cart] @ '' Ingredients:'' @ [CHR 0x0A]
     @ ''  Available:'' @ join ([CHR 0x0A] @ ''    '' @ [u_bullet] @ '' '') ([] # r_available r)
     @ [CHR 0x0A]
     @ ''  Needed:'' @ join ([CHR 0x0A] @ ''    '' @ [u_bullet] @ '' '') ([] # r_needed r)
     @ [CHR 0x0A, CHR 0x0A]
     @ [u_stopwatch, u_vs16] @ ''  Time: '' @ r_cooking_time r @ [CHR 0x0A]
     @ [u_star] @ '' Difficulty: '' @ r_difficulty r @ [CHR 0x0A, CHR 0x0A]
     @ [u_clipboard] @ '' Steps:'' @ [CHR 0x0A] @ ''    ''
     @ join ([CHR 0x0A] @ ''    '') (numbered_steps 0 (r_steps r)) @ [CHR 0x0A, CHR 0x0A]
     @ replicate 30 u_box_line @ [CHR 0x0A, CHR 0x0A]"

definition recipes_header :: string where
  "recipes_header = [u_cooking] @ '' Recipe suggestions:'' @ [CHR 0x0A, CHR 0x0A]"

text \<open>The loop that fills \<open>recipes_to_show\<close>: it stops at the first recipe that would take
  the running length beyond 1400.\<close>

fun recipes_to_show :: "nat \<Rightarrow> string list \<Rightarrow> string list" where
  "recipes_to_show total_length [] = []"
| "recipes_to_show total_length (text # texts) =
     (if total_length + length text > 1400 then []
      else text # recipes_to_show (total_length + length text) texts)"

definition more_recipes_note :: "nat \<Rightarrow> string" where
  "more_recipes_note remaining =
     [CHR 0x0A] @ ''...and '' @ str_of_nat remaining @ '' more recipe''
     @ (if remaining > 1 then ''s'' else []) @ '' available. Ask for more!''"

text \<open>The \<open>get_recipes\<close> branch, on the recipes of the recommendations.\<close>

definition get_recipes :: "recipe list \<Rightarrow> string" where
  "get_recipes recipes =
     (let shown = recipes_to_show (length recipes_header) (map recipe_text recipes)
      in recipes_header @ concat shown
         @ (if length shown < length recipes
            then more_recipes_note (length recipes - length shown) else []))"

subsection \<open>General conversation\<close>

text \<open>\<open>generate_general_response\<close>, as far as the response text goes: the content of the
  chat completion (\<open>None\<close> when anything raises, which becomes an \<open>HTTPException\<close>), cut
  to 1500 characters.\<close>

definition generate_general_response :: "string option \<Rightarrow> py_error + string" where
  "generate_general_response completion =
     (case completion of
        None \<Rightarrow> Inl HTTPException
      | Some ai_response \<Rightarrow>
          Inr (if length ai_response > 1500 then take 1497 ai_response @ ''...''
               else ai_response))"

subsection \<open>The dispatch\<close>

text \<open>The opaque capabilities a turn may call, each a function of the message.\<close>

record capabilities =
  normalizer_of :: normalizer
  analyze :: "string \<Rightarrow> analysis option"
  categorize :: "string \<Rightarrow> string list option"
  recommend :: "string \<Rightarrow> recipe list"
  chat :: "string \<Rightarrow> string option"

text \<open>\<open>process_classified_message\<close>; \<open>Inl\<close> is an exception that leaves the function.\<close>

definition process_classified_message ::
  "capabilities \<Rightarrow> classification \<Rightarrow> user \<Rightarrow> string \<Rightarrow> py_error + reply" where
  "process_classified_message caps cls usr message =
     (if action cls = ''remove_inventory'' then
        Inr (remove_inventory (normalizer_of caps) (ingredients usr) cls)
      else if action cls = ''get_inventory'' then
        Inr \<lparr>response = get_inventory (normalizer_of caps) (analyze caps) (categorize caps)
                           usr message,
             db_update = None\<rparr>
      else if action cls = ''update_inventory'' then
        Inr (update_inventory (normalizer_of caps) (ingredients usr) cls)
      else if action cls = ''get_recipes'' then
        Inr \<lparr>response = get_recipes (recommend caps message), db_update = None\<rparr>
      else
        (case generate_general_response (chat caps message) of
           Inl e \<Rightarrow> Inl e
         | Inr r \<Rightarrow>
             Inr \<lparr>response = (if length r > 1500 then take 1497 r @ ''...'' else r),
                  db_update = None\<rparr>))"


section \<open>Facts about the dictionary and the float operations\<close>


lemma dict_get_set_other: "k' \<noteq> k \<Longrightarrow> dict_get (dict_set d k v) k' = dict_get d k'"
  by (induction d) (auto simp: dict_get_def)

lemma dict_get_del_same: "dict_get (dict_del d k) k = None"
  by (induction d) (auto simp: dict_get_def dict_del_def)

lemma dict_get_del_other: "k' \<noteq> k \<Longrightarrow> dict_get (dict_del d k) k' = dict_get d k'"
  by (induction d) (auto simp: dict_get_def dict_del_def)

lemma dict_get_in_values: "dict_get d k = Some v \<Longrightarrow> v \<in> set (dict_values d)"
  by (auto simp: dict_get_def dict_values_def dest: map_of_SomeD intro: rev_image_eqI)




section \<open>Remove mode\<close>

text \<open>
  C1. The claim: a Remove request with \<open>remove_all\<close> set empties the inventory, reports one
  summary record and parses no item. The classifier's prompt asks for the flag (``Remove all
  items'' is to be classified as \<open>items = []\<close>, \<open>remove_all = true\<close>), but the
  \<open>remove_inventory\<close> branch never reads it: the flag changes nothing, and on the
  classification the prompt prescribes the branch writes the inventory back as it was and
  answers that nothing was removed.
\<close>

theorem remove_all_flag_ignored:
  "remove_inventory llm inventory (cls\<lparr>remove_all := True\<rparr>)
     = remove_inventory llm inventory (cls\<lparr>remove_all := False\<rparr>)
   \<and> remove_inventory Some [\<lparr>name = ''tomato'', amount = ''2 kg''\<rparr>]
        \<lparr>action = ''remove_inventory'', items = [], remove_all = True\<rparr>
     = \<lparr>response = ''No items were removed from your inventory.'',
        db_update = Some [\<lparr>name = ''tomato'', amount = ''2 kg''\<rparr>]\<rparr>"
proof
  show "remove_inventory llm inventory (cls\<lparr>remove_all := True\<rparr>)
          = remove_inventory llm inventory (cls\<lparr>remove_all := False\<rparr>)"
    by (simp add: remove_inventory_def)
  show "remove_inventory Some [\<lparr>name = ''tomato'', amount = ''2 kg''\<rparr>]
          \<lparr>action = ''remove_inventory'', items = [], remove_all = True\<rparr>
        = \<lparr>response = ''No items were removed from your inventory.'',
           db_update = Some [\<lparr>name = ''tomato'', amount = ''2 kg''\<rparr>]\<rparr>"
    by code_simp
qed



text \<open>
  C9. A Remove item that is in the inventory and does not ask for \<open>all\<close>, where the stored
  amount or the requested amount does not parse: the entry under the normalised key is
  deleted from the inventory, and the outcome for the item carries the invalid-amount error.
\<close>

theorem remove_item_unparsable:
  assumes present:
      "dict_get current_items (normalize_item_name llm (name it)) = Some current_item"
    and not_all: "lower (amount it) \<noteq> ''all''"
    and unparsable: "parse_amount_unit (amount current_item) = Inl e1
                     \<or> parse_amount_unit (amount it) = Inl e2"
  shows "fst (remove_item llm (current_items, removed_items) it)
           = dict_del current_items (normalize_item_name llm (name it))
       \<and> dict_get (fst (remove_item llm (current_items, removed_items) it))
            (normalize_item_name llm (name it)) = None
       \<and> snd (remove_item llm (current_items, removed_items) it)
           = removed_items @ [\<lparr>o_name = name current_item, o_amount = Some (amount current_item),
                                o_added = None, o_error = Some ''Invalid amount format''\<rparr>]"
  using assms
  by (auto simp: remove_item_def Let_def dict_get_del_same split: sum.splits prod.splits)

theorem remove_item_unparsable_witness:
  "remove_item Some ([(''milk'', \<lparr>name = ''milk'', amount = ''2 l''\<rparr>)], [])
     \<lparr>name = ''Milk'', amount = ''a bit''\<rparr>
   = ([], [\<lparr>o_name = ''milk'', o_amount = Some ''2 l'', o_added = None,
             o_error = Some ''Invalid amount format''\<rparr>])"
proof -
  let ?milk = "\<lparr>name = ''milk'', amount = ''2 l''\<rparr>"
  let ?it = "\<lparr>name = ''Milk'', amount = ''a bit''\<rparr>"
  have a1: "dict_get [(''milk'', ?milk)] (normalize_item_name Some (name ?it)) = Some ?milk"
    by code_simp
  have a2: "lower (amount ?it) \<noteq> ''all''"
    by code_simp
  have a3: "parse_amount_unit (amount ?milk) = Inl ValueError
            \<or> parse_amount_unit (amount ?it) = Inl ValueError"
    by code_simp
  have a4: "dict_del [(''milk'', ?milk)] (normalize_item_name Some (name ?it)) = []"
    by code_simp
  show ?thesis
    using remove_item_unparsable[OF a1 a2 a3, of "[]"] a4
    by (simp add: prod_eq_iff)
qed



section \<open>Commit policy of the two reconciliation modes\<close>

lemma update_item_appends:
  "\<exists>e. update_item llm (cur, outs, he) it
        = (fst (update_item llm (cur, outs, he) it), outs @ [e], he \<or> is_error e)
       \<and> o_name e = name it"
  by (auto simp: update_item_def update_failed_def Let_def is_error_def
           split: sum.splits prod.splits option.splits bool.splits)

lemma update_loop_report:
  "update_loop llm its (cur, outs, he) = (cur', outs', he') \<Longrightarrow>
     (\<exists>es. outs' = outs @ es \<and> map o_name es = map name its
           \<and> (he' \<longleftrightarrow> he \<or> (\<exists>e\<in>set es. is_error e)))"
proof (induction its arbitrary: cur outs he)
  case Nil
  then show ?case by simp
next
  case (Cons it its)
  obtain e where e: "update_item llm (cur, outs, he) it
        = (fst (update_item llm (cur, outs, he) it), outs @ [e], he \<or> is_error e)"
      "o_name e = name it"
    using update_item_appends by blast
  from Cons.prems have "update_loop llm its
        (fst (update_item llm (cur, outs, he) it), outs @ [e], he \<or> is_error e) = (cur', outs', he')"
    using e(1) by simp
  from Cons.IH[OF this] obtain es where es: "outs' = (outs @ [e]) @ es"
     "map o_name es = map name its" "he' \<longleftrightarrow> (he \<or> is_error e) \<or> (\<exists>x\<in>set es. is_error x)"
    by blast
  show ?case
    by (rule exI[of _ "e # es"]) (use es e(2) in auto)
qed

lemma remove_item_appends:
  "\<exists>e. snd (remove_item llm (cur, outs) it) = outs @ [e]"
  by (auto simp: remove_item_def Let_def split: sum.splits prod.splits option.splits)

lemma remove_loop_report:
  "\<exists>es. snd (remove_loop llm its (cur, outs)) = outs @ es \<and> length es = length its"
proof (induction its arbitrary: cur outs)
  case Nil
  then show ?case by simp
next
  case (Cons it its)
  obtain e where e: "snd (remove_item llm (cur, outs) it) = outs @ [e]"
    using remove_item_appends by blast
  obtain cur1 where c: "remove_item llm (cur, outs) it = (cur1, outs @ [e])"
    using e by (cases "remove_item llm (cur, outs) it") simp
  from Cons.IH[of cur1 "outs @ [e]"] obtain es where
    "snd (remove_loop llm its (cur1, outs @ [e])) = (outs @ [e]) @ es" "length es = length its"
    by blast
  then show ?case
    by (intro exI[of _ "e # es"]) (simp add: c)
qed

lemma remove_item_other_key:
  "normalize_item_name llm (name it) \<noteq> k \<Longrightarrow>
     dict_get (fst (remove_item llm st it)) k = dict_get (fst st) k"
  by (cases st)
     (auto simp: remove_item_def Let_def dict_get_set_other dict_get_del_other
           split: sum.splits prod.splits option.splits)

lemma remove_loop_other_keys:
  "\<forall>it\<in>set its. normalize_item_name llm (name it) \<noteq> k \<Longrightarrow>
     dict_get (fst (remove_loop llm its st)) k = dict_get (fst st) k"
  by (induction its arbitrary: st) (auto simp: remove_item_other_key)

lemma remove_loop_append:
  "remove_loop llm (xs @ ys) st = remove_loop llm ys (remove_loop llm xs st)"
  by (induction xs arbitrary: st) auto

text \<open>An Add item that fails (its amount does not parse, its unit is unknown, or its unit
  cannot be converted into the stored one) leaves the inventory as it is, adds an outcome
  with an error and sets \<open>has_errors\<close>.\<close>

lemma update_item_failure:
  assumes "parse_amount_unit (amount it) = Inl e
           \<or> (\<exists>v u. parse_amount_unit (amount it) = Inr (v, u) \<and> \<not> fst (validate_unit u))
           \<or> (\<exists>v u current_item cv cu.
                 parse_amount_unit (amount it) = Inr (v, u) \<and> fst (validate_unit u)
                 \<and> dict_get current_items (normalize_item_name llm (name it)) = Some current_item
                 \<and> parse_amount_unit (amount current_item) = Inr (cv, cu)
                 \<and> fst (validate_unit cu) \<and> cu \<noteq> u \<and> convert_unit v u cu = None)"
  shows "\<exists>out. update_item llm (current_items, updated_items, has_errors) it
                 = (current_items, updated_items @ [out], True)
               \<and> is_error out"
  using assms
  by (auto simp: update_item_def update_failed_def Let_def is_error_def
           split: sum.splits prod.splits option.splits bool.splits)

text \<open>
  C2. Add mode: the outcome report has one entry per delta item, in order, and the inventory
  is written only when no entry carries an error; one failing item keeps the whole batch
  from the store. Remove mode: the inventory is written after every batch, whatever the
  outcomes, and what an item's step left under its key is in the written list when no later
  item of the batch has the same key, although other items of the batch fail.
\<close>

theorem commit_policy:
  "(update_loop llm (items cls) (index_inventory llm inventory [], [], False)
        = (current_items, updated_items, has_errors) \<longrightarrow>
      map o_name updated_items = map name (items cls)
      \<and> db_update (update_inventory llm inventory cls)
          = (if \<exists>e\<in>set updated_items. is_error e then None
             else Some (dict_values current_items)))
   \<and> (remove_loop llm (items cls') (index_inventory llm inventory [], [])
        = (current_items', removed_items) \<longrightarrow>
      length removed_items = length (items cls')
      \<and> db_update (remove_inventory llm inventory cls') = Some (dict_values current_items')
      \<and> (\<forall>xs it ys v.
            items cls' = xs @ it # ys
            \<and> (\<forall>y\<in>set ys. normalize_item_name llm (name y) \<noteq> normalize_item_name llm (name it))
            \<and> dict_get (fst (remove_item llm
                               (remove_loop llm xs (index_inventory llm inventory [], [])) it))
                  (normalize_item_name llm (name it)) = Some v
            \<longrightarrow> v \<in> set (dict_values current_items')))"
proof (intro conjI impI allI)
  assume run: "update_loop llm (items cls) (index_inventory llm inventory [], [], False)
                 = (current_items, updated_items, has_errors)"
  from update_loop_report[OF run] obtain es where es: "updated_items = [] @ es"
      "map o_name es = map name (items cls)"
      "has_errors \<longleftrightarrow> False \<or> (\<exists>e\<in>set es. is_error e)"
    by blast
  show "map o_name updated_items = map name (items cls)"
    using es by simp
  show "db_update (update_inventory llm inventory cls)
          = (if \<exists>e\<in>set updated_items. is_error e then None
             else Some (dict_values current_items))"
    using es run by (simp add: update_inventory_def)
next
  assume run: "remove_loop llm (items cls') (index_inventory llm inventory [], [])
                 = (current_items', removed_items)"
  from remove_loop_report[of llm "items cls'" "index_inventory llm inventory []" "[]"]
  show "length removed_items = length (items cls')"
    using run by auto
  show "db_update (remove_inventory llm inventory cls') = Some (dict_values current_items')"
    using run by (simp add: remove_inventory_def Let_def)
next
  fix xs it ys v
  assume run: "remove_loop llm (items cls') (index_inventory llm inventory [], [])
                 = (current_items', removed_items)"
    and h: "items cls' = xs @ it # ys
            \<and> (\<forall>y\<in>set ys. normalize_item_name llm (name y) \<noteq> normalize_item_name llm (name it))
            \<and> dict_get (fst (remove_item llm
                               (remove_loop llm xs (index_inventory llm inventory [], [])) it))
                  (normalize_item_name llm (name it)) = Some v"
  let ?st = "remove_item llm (remove_loop llm xs (index_inventory llm inventory [], [])) it"
  have "remove_loop llm (items cls') (index_inventory llm inventory [], [])
          = remove_loop llm ys ?st"
    using h by (simp add: remove_loop_append)
  then have "current_items' = fst (remove_loop llm ys ?st)"
    using run by (metis fst_conv)
  then have "dict_get current_items' (normalize_item_name llm (name it)) = Some v"
    using h remove_loop_other_keys[of ys llm "normalize_item_name llm (name it)" ?st] by simp
  then show "v \<in> set (dict_values current_items')"
    by (rule dict_get_in_values)
qed

theorem commit_policy_witness:
  "db_update (update_inventory Some
      [\<lparr>name = ''tomato'', amount = ''2 kg''\<rparr>, \<lparr>name = ''egg'', amount = ''6''\<rparr>]
      \<lparr>action = ''update_inventory'',
        items = [\<lparr>name = ''tomato'', amount = ''500g''\<rparr>, \<lparr>name = ''rice'', amount = ''1 ltr''\<rparr>],
        remove_all = False\<rparr>) = None
   \<and> db_update (remove_inventory Some
      [\<lparr>name = ''tomato'', amount = ''2 kg''\<rparr>, \<lparr>name = ''egg'', amount = ''6''\<rparr>]
      \<lparr>action = ''remove_inventory'',
        items = [\<lparr>name = ''tomato'', amount = ''500g''\<rparr>, \<lparr>name = ''egg'', amount = ''8''\<rparr>],
        remove_all = False\<rparr>)
     = Some [\<lparr>name = ''tomato'', amount = ''1.5 kg''\<rparr>, \<lparr>name = ''egg'', amount = ''6''\<rparr>]
   \<and> \<lparr>name = ''tomato'', amount = ''1.5 kg''\<rparr>
       \<in> set (dict_values [(''tomato'', \<lparr>name = ''tomato'', amount = ''1.5 kg''\<rparr>),
                            (''egg'', \<lparr>name = ''egg'', amount = ''6''\<rparr>)])"
proof -
  let ?inventory = "[\<lparr>name = ''tomato'', amount = ''2 kg''\<rparr>, \<lparr>name = ''egg'', amount = ''6''\<rparr>]"
  let ?add = "\<lparr>action = ''update_inventory'',
        items = [\<lparr>name = ''tomato'', amount = ''500g''\<rparr>, \<lparr>name = ''rice'', amount = ''1 ltr''\<rparr>],
        remove_all = False\<rparr>"
  let ?rm = "\<lparr>action = ''remove_inventory'',
        items = [\<lparr>name = ''tomato'', amount = ''500g''\<rparr>, \<lparr>name = ''egg'', amount = ''8''\<rparr>],
        remove_all = False\<rparr>"
  let ?outs = "[\<lparr>o_name = ''tomato'', o_amount = Some ''2.5 kg'', o_added = Some ''0.5 kg'',
                  o_error = None\<rparr>,
                \<lparr>o_name = ''rice'', o_amount = Some ''1 ltr'', o_added = None,
                  o_error = Some ''Did you mean: l?''\<rparr>]"
  let ?cur' = "[(''tomato'', \<lparr>name = ''tomato'', amount = ''1.5 kg''\<rparr>),
                (''egg'', \<lparr>name = ''egg'', amount = ''6''\<rparr>)]"
  let ?routs = "[\<lparr>o_name = ''tomato'', o_amount = Some ''0.5 kg'', o_added = None,
                   o_error = None\<rparr>,
                 \<lparr>o_name = ''egg'', o_amount = Some ''6'', o_added = None,
                   o_error = Some ''Requested amount exceeds available amount''\<rparr>]"
  have a: "update_loop Some (items ?add) (index_inventory Some ?inventory [], [], False)
           = ([(''tomato'', \<lparr>name = ''tomato'', amount = ''2.5 kg''\<rparr>),
               (''egg'', \<lparr>name = ''egg'', amount = ''6''\<rparr>)], ?outs, True)"
    by code_simp
  have r: "remove_loop Some (items ?rm) (index_inventory Some ?inventory [], []) = (?cur', ?routs)"
    by code_simp
  have e: "\<exists>e\<in>set ?outs. is_error e"
    by (simp add: is_error_def)
  have s: "items ?rm = [] @ \<lparr>name = ''tomato'', amount = ''500g''\<rparr> # [\<lparr>name = ''egg'', amount = ''8''\<rparr>]
      \<and> (\<forall>y\<in>set [\<lparr>name = ''egg'', amount = ''8''\<rparr>].
            normalize_item_name Some (name y)
              \<noteq> normalize_item_name Some (name \<lparr>name = ''tomato'', amount = ''500g''\<rparr>))
      \<and> dict_get (fst (remove_item Some
                         (remove_loop Some [] (index_inventory Some ?inventory [], []))
                         \<lparr>name = ''tomato'', amount = ''500g''\<rparr>))
            (normalize_item_name Some (name \<lparr>name = ''tomato'', amount = ''500g''\<rparr>))
          = Some \<lparr>name = ''tomato'', amount = ''1.5 kg''\<rparr>"
    by code_simp
  note t = commit_policy[of Some ?add ?inventory _ ?outs True ?rm ?cur' ?routs]
  have t1: "db_update (update_inventory Some ?inventory ?add)
              = (if \<exists>e\<in>set ?outs. is_error e then None
                 else Some (dict_values [(''tomato'', \<lparr>name = ''tomato'', amount = ''2.5 kg''\<rparr>),
                                         (''egg'', \<lparr>name = ''egg'', amount = ''6''\<rparr>)]))"
    using t[THEN conjunct1, rule_format, OF a] by (rule conjunct2)
  have t2: "db_update (remove_inventory Some ?inventory ?rm) = Some (dict_values ?cur')"
    using t[THEN conjunct2, rule_format, OF r] by (elim conjE)
  have t3: "\<lparr>name = ''tomato'', amount = ''1.5 kg''\<rparr> \<in> set (dict_values ?cur')"
    using t[THEN conjunct2, THEN mp, OF r, THEN conjunct2, THEN conjunct2, rule_format, OF s] .
  have v: "dict_values ?cur'
           = [\<lparr>name = ''tomato'', amount = ''1.5 kg''\<rparr>, \<lparr>name = ''egg'', amount = ''6''\<rparr>]"
    by (simp add: dict_values_def)
  have "db_update (update_inventory Some ?inventory ?add) = None"
    using t1 e by (simp only: if_True)
  moreover have "db_update (remove_inventory Some ?inventory ?rm)
       = Some [\<lparr>name = ''tomato'', amount = ''1.5 kg''\<rparr>, \<lparr>name = ''egg'', amount = ''6''\<rparr>]"
    using t2 v by (simp only:)
  ultimately show ?thesis
    using t3 by (intro conjI)
qed

section \<open>Add mode\<close>




section \<open>Unit conversion\<close>

lemma rstrip_s_no_trailing_s: "rstrip_s x \<noteq> y @ ''s''"
proof
  assume a: "rstrip_s x = y @ ''s''"
  have "rev (rstrip_s x) = dropWhile (\<lambda>c. c = CHR ''s'') (rev x)"
    by (simp add: rstrip_s_def)
  with a have d: "dropWhile (\<lambda>c. c = CHR ''s'') (rev x) = CHR ''s'' # rev y"
    by simp
  have "dropWhile (\<lambda>c. c = CHR ''s'') (rev x) \<noteq> [] \<Longrightarrow>
        hd (dropWhile (\<lambda>c. c = CHR ''s'') (rev x)) \<noteq> CHR ''s''"
    using hd_dropWhile[of "\<lambda>c. c = CHR ''s''" "rev x"] by blast
  with d show False by simp
qed

lemma all_same_replicate: "\<forall>c\<in>set xs. c = a \<Longrightarrow> xs = replicate (length xs) a"
  by (induction xs) auto

lemma rstrip_s_decompose: "\<exists>k. x = rstrip_s x @ replicate k (CHR ''s'')"
proof -
  let ?P = "\<lambda>c. c = CHR ''s''"
  have "rev (takeWhile ?P (rev x) @ dropWhile ?P (rev x)) = x"
    by (simp only: takeWhile_dropWhile_id rev_rev_ident)
  then have x: "x = rstrip_s x @ rev (takeWhile ?P (rev x))"
    by (simp only: rev_append rstrip_s_def)
  have "\<forall>c\<in>set (rev (takeWhile ?P (rev x))). c = CHR ''s''"
    by (auto dest: set_takeWhileD)
  then have "rev (takeWhile ?P (rev x)) = replicate (length (rev (takeWhile ?P (rev x)))) (CHR ''s'')"
    by (rule all_same_replicate)
  with x show ?thesis by metis
qed





lemma factor_positive:
  assumes "map_of get_unit_conversions u = Some f"
  shows "0 < f"
proof -
  have "(u, f) \<in> set get_unit_conversions"
    using assms by (rule map_of_SomeD)
  then show ?thesis
    by (auto simp: get_unit_conversions_def)
qed



lemma table_alias_normal_form:
  assumes "a \<in> set (map fst get_unit_conversions)"
  shows "map_of get_unit_conversions (normalize_unit a) = map_of get_unit_conversions a
         \<and> unit_dimension (normalize_unit a) = unit_dimension a"
proof -
  have "\<forall>a\<in>set (map fst get_unit_conversions).
          map_of get_unit_conversions (normalize_unit a) = map_of get_unit_conversions a
          \<and> unit_dimension (normalize_unit a) = unit_dimension a"
    by code_simp
  with assms show ?thesis by blast
qed



section \<open>Unit validation\<close>

lemma starts_with_prefix: "starts_with x y \<longleftrightarrow> prefix x y"
  by (induction x y rule: starts_with.induct) auto

lemma str_in_sublist: "str_in x y \<longleftrightarrow> sublist x y"
  by (induction y) (auto simp: starts_with_prefix sublist_Cons_right)

lemma similar_units_sound:
  "a \<in> set (similar_units u) \<Longrightarrow>
     a \<in> set (map fst get_unit_conversions) \<and> (sublist u a \<or> sublist a u)"
  by (auto simp: similar_units_def str_in_sublist)

text \<open>
  C6, as amended. \<open>_validate_unit\<close> lowercases the text and removes every trailing \<open>s\<close> (the
  normal form ends in no \<open>s\<close>, and the lowercased text is the normal form followed by some
  number of \<open>s\<close>), then looks the normal form up in the table. With no match it fails, every
  suggestion it computes is an alias of the table that contains the normal form or is
  contained in it, and its message lists the suggestions, or the supported units when there
  is none.
\<close>

theorem validate_unit_amended:
  "(\<exists>k. lower unit0 = normalize_unit unit0 @ replicate k (CHR ''s''))
   \<and> (\<forall>y. normalize_unit unit0 \<noteq> y @ ''s'')
   \<and> (normalize_unit unit0 \<in> set (map fst get_unit_conversions) \<longrightarrow>
        validate_unit unit0 = (True, normalize_unit unit0))
   \<and> (normalize_unit unit0 \<notin> set (map fst get_unit_conversions) \<longrightarrow>
        \<not> fst (validate_unit unit0)
        \<and> (\<forall>a\<in>set (similar_units (normalize_unit unit0)).
              a \<in> set (map fst get_unit_conversions)
              \<and> (sublist (normalize_unit unit0) a \<or> sublist a (normalize_unit unit0)))
        \<and> snd (validate_unit unit0)
            = (if similar_units (normalize_unit unit0) = []
               then ''Unsupported unit. Supported units are: g, kg, ml, l, piece''
               else ''Did you mean: '' @ join '', '' (similar_units (normalize_unit unit0))
                    @ ''?''))"
proof (intro conjI impI allI ballI)
  show "\<exists>k. lower unit0 = normalize_unit unit0 @ replicate k (CHR ''s'')"
    unfolding normalize_unit_def by (rule rstrip_s_decompose)
next
  fix y show "normalize_unit unit0 \<noteq> y @ ''s''"
    unfolding normalize_unit_def by (rule rstrip_s_no_trailing_s)
next
  assume "normalize_unit unit0 \<in> set (map fst get_unit_conversions)"
  then show "validate_unit unit0 = (True, normalize_unit unit0)"
    by (simp add: validate_unit_def Let_def)
next
  assume n: "normalize_unit unit0 \<notin> set (map fst get_unit_conversions)"
  then show "\<not> fst (validate_unit unit0)"
    by (simp add: validate_unit_def Let_def)
  show "snd (validate_unit unit0)
          = (if similar_units (normalize_unit unit0) = []
             then ''Unsupported unit. Supported units are: g, kg, ml, l, piece''
             else ''Did you mean: '' @ join '', '' (similar_units (normalize_unit unit0)) @ ''?'')"
    using n by (simp add: validate_unit_def Let_def)
next
  fix a
  assume "a \<in> set (similar_units (normalize_unit unit0))"
  then show "a \<in> set (map fst get_unit_conversions)"
    and "sublist (normalize_unit unit0) a \<or> sublist a (normalize_unit unit0)"
    using similar_units_sound by blast+
qed

text \<open>
  The claim as stated removes a single trailing \<open>s\<close>; on \<open>kgss\<close> that leaves \<open>kgs\<close>,
  which is no alias, while \<open>_validate_unit\<close> accepts \<open>kgss\<close> as \<open>kg\<close>.
\<close>

theorem validate_unit_single_suffix_counterexample:
  "validate_unit ''kgss'' = (True, ''kg'')
   \<and> spec_normalize_unit ''kgss'' = ''kgs''
   \<and> ''kgs'' \<notin> set (map fst get_unit_conversions)"
  by code_simp

theorem validate_unit_amended_witness:
  "validate_unit ''KGs'' = (True, ''kg'')
   \<and> validate_unit ''ltr'' = (False, ''Did you mean: l?'')
   \<and> similar_units ''ltr'' = [''l'']
   \<and> (sublist ''ltr'' ''l'' \<or> sublist ''l'' ''ltr'')"
proof -
  have k: "normalize_unit ''KGs'' = ''kg''" "normalize_unit ''ltr'' = ''ltr''"
    by code_simp+
  have a: "normalize_unit ''KGs'' \<in> set (map fst get_unit_conversions)"
    by code_simp
  have b: "normalize_unit ''ltr'' \<notin> set (map fst get_unit_conversions)"
    by code_simp
  have c: "similar_units ''ltr'' = [''l'']"
    by code_simp
  have d: "join '', '' [''l''] = ''l''"
    by simp
  have 1: "validate_unit ''KGs'' = (True, ''kg'')"
    using validate_unit_amended[of "''KGs''"] a k by simp
  have 2: "validate_unit ''ltr'' = (False, ''Did you mean: l?'')"
    using validate_unit_amended[of "''ltr''"] b k c d by (simp add: prod_eq_iff)
  have 3: "\<forall>a\<in>set (similar_units ''ltr''). sublist ''ltr'' a \<or> sublist a ''ltr''"
    using validate_unit_amended[of "''ltr''"] b k by simp
  have 4: "sublist ''ltr'' ''l'' \<or> sublist ''l'' ''ltr''"
    using 3 c by simp
  show ?thesis using 1 2 c 4 by (intro conjI)
qed


section \<open>Parsing an amount\<close>



























section \<open>Intent classification\<close>

lemma check_items_ok: "check_items its = Inr u \<longleftrightarrow> (\<forall>it\<in>set its. well_formed_item it)"
  by (induction its) (auto simp: well_formed_item_def split: json.splits)

lemma general_conversation_intent: "is_intent general_conversation"
  by (simp add: is_intent_def general_conversation_def valid_actions_def)

lemma validate_classification_intent:
  assumes "validate_classification c = Inr c'"
  shows "c' = c \<and> is_intent c"
proof -
  from assms obtain kvs where c: "c = JObject kvs"
    by (cases c) (auto simp: validate_classification_def py_contains_def py_getitem_def
          split: if_splits bool.splits)
  from assms c obtain a where a: "map_of kvs ''action'' = Some a"
    by (cases "map_of kvs ''action''")
       (auto simp: validate_classification_def py_contains_def py_getitem_def
          split: if_splits bool.splits)
  from assms c a have v: "a \<in> set (map JString valid_actions)"
    by (auto simp: validate_classification_def py_contains_def py_getitem_def
          split: if_splits bool.splits)
  then obtain s where s: "a = JString s" "s \<in> set valid_actions"
    by auto
  have "c' = c"
    using assms c a v
    by (auto simp: validate_classification_def py_contains_def py_getitem_def
          split: if_splits bool.splits sum.splits json.splits)
  moreover have "is_intent c"
    using c a s by (simp add: is_intent_def)
  ultimately show ?thesis by simp
qed

lemma validate_classification_items:
  assumes "validate_classification (JObject kvs) = Inr c'"
    and "map_of kvs ''action'' = Some (JString act)"
    and "act \<in> set [''update_inventory'', ''remove_inventory'']"
  shows "\<exists>its. map_of kvs ''items'' = Some (JArray its) \<and> (\<forall>it\<in>set its. well_formed_item it)"
proof -
  have k: "''action'' \<in> set (map fst kvs)"
    using assms(2) by (metis map_of_eq_None_iff option.distinct(1) set_map)
  have inv: "JString act \<in> set [JString ''update_inventory'', JString ''remove_inventory'']"
    using assms(3) by auto
  have va: "JString act \<in> set (map JString valid_actions)"
    using assms(3) by (auto simp: valid_actions_def)
  from assms(1) k assms(2) inv va
  have "\<exists>its u. map_of kvs ''items'' = Some (JArray its) \<and> check_items its = Inr u"
    by (auto simp: validate_classification_def py_contains_def py_getitem_def
          split: if_splits option.splits json.splits sum.splits bool.splits)
  then show ?thesis
    using check_items_ok by blast
qed

lemma classify_message_cases:
  "classify_message r = general_conversation
   \<or> (\<exists>c0. r = Content (Some c0) \<and> validate_classification c0 = Inr (classify_message r))"
  by (auto simp: classify_message_def split: completion.splits option.splits sum.splits)

text \<open>
  C4. \<open>classify_message\<close> returns an intent for every outcome of the classification
  capability, and it returns \<open>general_conversation\<close> when the capability fails or its
  content is no JSON, when the result is no dict or has no \<open>action\<close>, when the action is
  none of the five, and when an inventory action comes with an item that is no dict or lacks
  \<open>name\<close> or \<open>amount\<close>. An inventory intent it returns has a list of well-formed items.
\<close>

theorem classify_message_total:
  "is_intent (classify_message r)
   \<and> (r = ProviderError \<or> r = Content None \<longrightarrow> classify_message r = general_conversation)
   \<and> (r = Content (Some c) \<and> (\<forall>kvs. c \<noteq> JObject kvs) \<longrightarrow>
        classify_message r = general_conversation)
   \<and> (r = Content (Some (JObject kvs)) \<and> ''action'' \<notin> set (map fst kvs) \<longrightarrow>
        classify_message r = general_conversation)
   \<and> (r = Content (Some (JObject kvs)) \<and> map_of kvs ''action'' = Some a
        \<and> a \<notin> set (map JString valid_actions) \<longrightarrow>
        classify_message r = general_conversation)
   \<and> (r = Content (Some (JObject kvs)) \<and> map_of kvs ''action'' = Some (JString act)
        \<and> act \<in> set [''update_inventory'', ''remove_inventory'']
        \<and> map_of kvs ''items'' = Some (JArray its) \<and> (\<exists>it\<in>set its. \<not> well_formed_item it) \<longrightarrow>
        classify_message r = general_conversation)
   \<and> (classify_message r = JObject kvs' \<and> map_of kvs' ''action'' = Some (JString act')
        \<and> act' \<in> set [''update_inventory'', ''remove_inventory''] \<longrightarrow>
        (\<exists>its'. map_of kvs' ''items'' = Some (JArray its')
                \<and> (\<forall>it\<in>set its'. well_formed_item it)))"
proof (intro conjI impI)
  show "is_intent (classify_message r)"
  proof (cases r)
    case ProviderError
    then show ?thesis by (simp add: classify_message_def general_conversation_intent)
  next
    case (Content oc)
    show ?thesis
    proof (cases oc)
      case None
      then show ?thesis using Content by (simp add: classify_message_def general_conversation_intent)
    next
      case (Some c0)
      show ?thesis
      proof (cases "validate_classification c0")
        case (Inl e)
        then show ?thesis
          using Content Some by (simp add: classify_message_def general_conversation_intent)
      next
        case (Inr c1)
        then show ?thesis
          using Content Some validate_classification_intent[OF Inr]
          by (simp add: classify_message_def)
      qed
    qed
  qed
next
  assume "r = ProviderError \<or> r = Content None"
  then show "classify_message r = general_conversation"
    by (auto simp: classify_message_def)
next
  assume a: "r = Content (Some c) \<and> (\<forall>kvs. c \<noteq> JObject kvs)"
  have "\<exists>e. validate_classification c = Inl e"
    using a by (cases c)
      (auto simp: validate_classification_def py_contains_def py_getitem_def split: bool.splits)
  then show "classify_message r = general_conversation"
    using a by (auto simp: classify_message_def)
next
  assume a: "r = Content (Some (JObject kvs)) \<and> ''action'' \<notin> set (map fst kvs)"
  then have "validate_classification (JObject kvs) = Inl ValueError"
    by (simp add: validate_classification_def py_contains_def)
  then show "classify_message r = general_conversation"
    using a by (simp add: classify_message_def)
next
  assume a: "r = Content (Some (JObject kvs)) \<and> map_of kvs ''action'' = Some a
             \<and> a \<notin> set (map JString valid_actions)"
  then have "''action'' \<in> set (map fst kvs)"
    by (metis map_of_eq_None_iff option.distinct(1) set_map)
  with a have "validate_classification (JObject kvs) = Inl ValueError"
    by (simp add: validate_classification_def py_contains_def py_getitem_def)
  then show "classify_message r = general_conversation"
    using a by (simp add: classify_message_def)
next
  assume a: "r = Content (Some (JObject kvs)) \<and> map_of kvs ''action'' = Some (JString act)
        \<and> act \<in> set [''update_inventory'', ''remove_inventory'']
        \<and> map_of kvs ''items'' = Some (JArray its) \<and> (\<exists>it\<in>set its. \<not> well_formed_item it)"
  have "\<exists>e. validate_classification (JObject kvs) = Inl e"
  proof (cases "validate_classification (JObject kvs)")
    case (Inl e)
    then show ?thesis by simp
  next
    case (Inr c1)
    from validate_classification_items[OF Inr] a show ?thesis by auto
  qed
  then show "classify_message r = general_conversation"
    using a by (auto simp: classify_message_def)
next
  assume a: "classify_message r = JObject kvs' \<and> map_of kvs' ''action'' = Some (JString act')
        \<and> act' \<in> set [''update_inventory'', ''remove_inventory'']"
  show "\<exists>its'. map_of kvs' ''items'' = Some (JArray its') \<and> (\<forall>it\<in>set its'. well_formed_item it)"
  proof -
    from classify_message_cases[of r] show ?thesis
    proof
      assume "classify_message r = general_conversation"
      with a show ?thesis
        by (auto simp: general_conversation_def)
    next
      assume "\<exists>c0. r = Content (Some c0)
                \<and> validate_classification c0 = Inr (classify_message r)"
      then obtain c0 where c0: "validate_classification c0 = Inr (JObject kvs')"
        using a by auto
      with validate_classification_intent[OF c0]
      have "validate_classification (JObject kvs') = Inr (JObject kvs')"
        by simp
      from validate_classification_items[OF this] a show ?thesis by blast
    qed
  qed
qed

theorem classify_message_total_witness:
  "classify_message ProviderError = general_conversation
   \<and> classify_message (Content (Some (JArray [JString ''action'']))) = general_conversation
   \<and> classify_message (Content (Some (JObject [(''items'', JArray [])]))) = general_conversation
   \<and> classify_message (Content (Some (JObject [(''action'', JString ''delete_everything'')])))
       = general_conversation
   \<and> classify_message (Content (Some (JObject
         [(''action'', JString ''update_inventory''),
          (''items'', JArray [JObject [(''name'', JString ''egg'')]])])))
       = general_conversation
   \<and> (\<exists>its'. map_of [(''action'', JString ''remove_inventory''),
                        (''items'', JArray [JObject [(''name'', JString ''egg''),
                                                     (''amount'', JString ''2'')]]),
                        (''remove_all'', JBool False)] ''items'' = Some (JArray its')
              \<and> (\<forall>it\<in>set its'. well_formed_item it))"
proof -
  let ?bad = "[(''action'', JString ''update_inventory''),
               (''items'', JArray [JObject [(''name'', JString ''egg'')]])]"
  let ?good = "[(''action'', JString ''remove_inventory''),
                (''items'', JArray [JObject [(''name'', JString ''egg''),
                                             (''amount'', JString ''2'')]]),
                (''remove_all'', JBool False)]"
  have 1: "classify_message ProviderError = general_conversation"
    using classify_message_total[where r = ProviderError] by simp
  have 2: "classify_message (Content (Some (JArray [JString ''action'']))) = general_conversation"
    using classify_message_total[where r = "Content (Some (JArray [JString ''action'']))"
        and c = "JArray [JString ''action'']"] by simp
  have 3: "classify_message (Content (Some (JObject [(''items'', JArray [])])))
           = general_conversation"
    using classify_message_total[where r = "Content (Some (JObject [(''items'', JArray [])]))"
        and kvs = "[(''items'', JArray [])]"] by simp
  have 4: "classify_message (Content (Some (JObject [(''action'', JString ''delete_everything'')])))
           = general_conversation"
    using classify_message_total[
        where r = "Content (Some (JObject [(''action'', JString ''delete_everything'')]))"
        and kvs = "[(''action'', JString ''delete_everything'')]"
        and a = "JString ''delete_everything''"]
    by (simp add: valid_actions_def)
  have 5: "classify_message (Content (Some (JObject ?bad))) = general_conversation"
    using classify_message_total[where r = "Content (Some (JObject ?bad))" and kvs = ?bad
        and act = "''update_inventory''" and its = "[JObject [(''name'', JString ''egg'')]]"]
    by (simp add: well_formed_item_def)
  have g: "classify_message (Content (Some (JObject ?good))) = JObject ?good"
    by (simp add: classify_message_def validate_classification_def py_contains_def
          py_getitem_def valid_actions_def)
  have 6: "\<exists>its'. map_of ?good ''items'' = Some (JArray its')
                 \<and> (\<forall>it\<in>set its'. well_formed_item it)"
    using classify_message_total[where r = "Content (Some (JObject ?good))" and kvs' = ?good
        and act' = "''remove_inventory''"] g
    by simp
  show ?thesis
    using 1 2 3 4 5 6 by (intro conjI)
qed


section \<open>Length of the responses\<close>

lemma recipes_to_show_prefix: "prefix (recipes_to_show total_length texts) texts"
  by (induction texts arbitrary: total_length) auto

lemma recipes_to_show_fits:
  "total_length \<le> 1400 \<Longrightarrow> total_length + length (concat (recipes_to_show total_length texts)) \<le> 1400"
proof (induction texts arbitrary: total_length)
  case Nil
  then show ?case by simp
next
  case (Cons t texts)
  show ?case
  proof (cases "total_length + length t > 1400")
    case True
    then show ?thesis using Cons.prems by simp
  next
    case False
    then have "total_length + length t + length (concat (recipes_to_show (total_length + length t) texts)) \<le> 1400"
      using Cons.IH[of "total_length + length t"] by simp
    then show ?thesis using False by simp
  qed
qed

lemma recipes_to_show_next:
  "texts = recipes_to_show total_length texts @ t # rest \<Longrightarrow>
     total_length + length (concat (recipes_to_show total_length texts)) + length t > 1400"
proof (induction texts arbitrary: total_length)
  case Nil
  then show ?case by simp
next
  case (Cons x texts)
  show ?case
  proof (cases "total_length + length x > 1400")
    case True
    then show ?thesis using Cons.prems by simp
  next
    case False
    then have "texts = recipes_to_show (total_length + length x) texts @ t # rest"
      using Cons.prems by simp
    from Cons.IH[OF this] show ?thesis using False by (simp add: add.assoc)
  qed
qed

lemma header_length: "length recipes_header = 23"
  by (simp add: recipes_header_def)

lemma general_reply_length:
  "length (if length (r::string) > 1500 then take 1497 r @ ''...'' else r) \<le> 1500"
  by simp

text \<open>
  C8, as amended. A general-conversation reply is at most 1500 characters long: the
  generated text, or its first 1497 characters followed by the marker \<open>...\<close> when it is
  longer than 1500. A recipe listing has another budget: the header and the recipes shown
  take at most 1400 characters, the recipes shown are the first recipes in order, and the
  first recipe left out is one that did not fit into the 1400; the note about the recipes
  left out comes on top.
\<close>

theorem response_length_budgets:
  "(process_classified_message caps cls usr message = Inr rep
      \<and> action cls \<notin> set [''remove_inventory'', ''get_inventory'', ''update_inventory'',
                             ''get_recipes''] \<longrightarrow>
      length (response rep) \<le> 1500
      \<and> (\<exists>out. chat caps message = Some out
                \<and> response rep = (if length out > 1500 then take 1497 out @ ''...'' else out)))
   \<and> (action cls = ''get_recipes'' \<longrightarrow>
        (\<exists>shown.
           process_classified_message caps cls usr message
             = Inr \<lparr>response =
                      recipes_header @ concat shown
                      @ (if length shown < length (recommend caps message)
                         then more_recipes_note (length (recommend caps message) - length shown)
                         else []),
                    db_update = None\<rparr>
           \<and> prefix shown (map recipe_text (recommend caps message))
           \<and> length (recipes_header @ concat shown) \<le> 1400
           \<and> (\<forall>t rest. map recipe_text (recommend caps message) = shown @ t # rest \<longrightarrow>
                 length (recipes_header @ concat shown) + length t > 1400)))"
proof (intro conjI impI)
  assume a: "process_classified_message caps cls usr message = Inr rep
      \<and> action cls \<notin> set [''remove_inventory'', ''get_inventory'', ''update_inventory'',
                             ''get_recipes'']"
  then have n: "action cls \<noteq> ''remove_inventory''" "action cls \<noteq> ''get_inventory''"
      "action cls \<noteq> ''update_inventory''" "action cls \<noteq> ''get_recipes''"
    by simp_all
  from a have "process_classified_message caps cls usr message = Inr rep" by simp
  with n have g: "(case generate_general_response (chat caps message) of
                   Inl e \<Rightarrow> Inl e
                 | Inr r \<Rightarrow> Inr \<lparr>response = (if length r > 1500 then take 1497 r @ ''...'' else r),
                                 db_update = None\<rparr>) = Inr rep"
    by (simp add: process_classified_message_def)
  then obtain out where out: "chat caps message = Some out"
    by (cases "chat caps message") (auto simp: generate_general_response_def)
  let ?r = "if length out > 1500 then take 1497 out @ ''...'' else out"
  have r: "generate_general_response (chat caps message) = Inr ?r"
    using out by (simp add: generate_general_response_def)
  have l: "length ?r \<le> 1500" by simp
  have rep: "response rep = (if length ?r > 1500 then take 1497 ?r @ ''...'' else ?r)"
    using g r by (auto simp del: length_take)
  then have rep': "response rep = ?r"
    using l by (simp only: not_less[symmetric] if_False)
  show "length (response rep) \<le> 1500"
    using rep' l by (simp only:)
  show "\<exists>out. chat caps message = Some out
                \<and> response rep = (if length out > 1500 then take 1497 out @ ''...'' else out)"
    using rep' out by (intro exI[of _ out] conjI)
next
  assume a: "action cls = ''get_recipes''"
  let ?texts = "map recipe_text (recommend caps message)"
  let ?shown = "recipes_to_show (length recipes_header) ?texts"
  have h: "length recipes_header \<le> 1400"
    by (simp add: header_length)
  show "\<exists>shown.
           process_classified_message caps cls usr message
             = Inr \<lparr>response =
                      recipes_header @ concat shown
                      @ (if length shown < length (recommend caps message)
                         then more_recipes_note (length (recommend caps message) - length shown)
                         else []),
                    db_update = None\<rparr>
           \<and> prefix shown ?texts
           \<and> length (recipes_header @ concat shown) \<le> 1400
           \<and> (\<forall>t rest. ?texts = shown @ t # rest \<longrightarrow>
                 length (recipes_header @ concat shown) + length t > 1400)"
  proof (intro exI[of _ ?shown] conjI allI impI)
    show "process_classified_message caps cls usr message
             = Inr \<lparr>response =
                      recipes_header @ concat ?shown
                      @ (if length ?shown < length (recommend caps message)
                         then more_recipes_note (length (recommend caps message) - length ?shown)
                         else []),
                    db_update = None\<rparr>"
      using a by (simp add: process_classified_message_def get_recipes_def Let_def)
    show "prefix ?shown ?texts"
      by (rule recipes_to_show_prefix)
    show "length (recipes_header @ concat ?shown) \<le> 1400"
      using recipes_to_show_fits[OF h, of ?texts] by simp
    show "length (recipes_header @ concat ?shown) + length t > 1400"
      if "?texts = ?shown @ t # rest" for t rest
      using recipes_to_show_next[OF that] by simp
  qed
qed

text \<open>
  The claim as stated has one ceiling for every intent. An inventory listing is not cut at
  all (here it is 1587 characters long), and the two budgets differ: a general reply of
  1450 characters is sent whole, while a recipe that would bring the listing to 1450
  characters is left out.
\<close>

theorem response_ceiling_counterexample:
  "process_classified_message
      \<lparr>normalizer_of = (\<lambda>_. Some ''a''), analyze = (\<lambda>_. Some ShowAll), categorize = (\<lambda>_. None),
        recommend = (\<lambda>_. []), chat = (\<lambda>_. None)\<rparr>
      \<lparr>action = ''get_inventory'', items = [], remove_all = False\<rparr>
      \<lparr>ingredients = [\<lparr>name = replicate 1500 (CHR ''a''), amount = ''1''\<rparr>],
        last_updated = ''2024-01-01 10:00''\<rparr>
      ''show my inventory''
   = Inr \<lparr>response =
            [u_clipboard] @ '' Your Kitchen Inventory:'' @ [CHR 0x0A, CHR 0x0A]
            @ [u_bullet] @ '' '' @ replicate 1500 (CHR ''a'') @ '' (1)'' @ [CHR 0x0A, CHR 0x0A]
            @ ''Total items shown: 1'' @ [CHR 0x0A, CHR 0x0A]
            @ ''Last updated: 2024-01-01 10:00'',
          db_update = None\<rparr>
   \<and> length ([u_clipboard] @ '' Your Kitchen Inventory:'' @ [CHR 0x0A, CHR 0x0A]
            @ [u_bullet] @ '' '' @ replicate 1500 (CHR ''a'') @ '' (1)'' @ [CHR 0x0A, CHR 0x0A]
            @ ''Total items shown: 1'' @ [CHR 0x0A, CHR 0x0A]
            @ ''Last updated: 2024-01-01 10:00'') = 1587
   \<and> process_classified_message
      \<lparr>normalizer_of = Some, analyze = (\<lambda>_. None), categorize = (\<lambda>_. None),
        recommend = (\<lambda>_. []), chat = (\<lambda>_. Some (replicate 1450 (CHR ''x'')))\<rparr>
      \<lparr>action = ''general_conversation'', items = [], remove_all = False\<rparr>
      \<lparr>ingredients = [], last_updated = ''2024-01-01 10:00''\<rparr> ''hello''
     = Inr \<lparr>response = replicate 1450 (CHR ''x''), db_update = None\<rparr>
   \<and> length (recipes_header
              @ recipe_text \<lparr>r_name = replicate 1307 (CHR ''a''), r_description = [],
                              r_available = [], r_needed = [], r_difficulty = [],
                              r_cooking_time = [], r_steps = []\<rparr>) = 1450
   \<and> process_classified_message
      \<lparr>normalizer_of = Some, analyze = (\<lambda>_. None), categorize = (\<lambda>_. None),
        recommend = (\<lambda>_. [\<lparr>r_name = replicate 1307 (CHR ''a''), r_description = [],
                               r_available = [], r_needed = [], r_difficulty = [],
                               r_cooking_time = [], r_steps = []\<rparr>]),
        chat = (\<lambda>_. None)\<rparr>
      \<lparr>action = ''get_recipes'', items = [], remove_all = False\<rparr>
      \<lparr>ingredients = [], last_updated = ''2024-01-01 10:00''\<rparr> ''what can I cook''
     = Inr \<lparr>response = recipes_header @ more_recipes_note 1, db_update = None\<rparr>"
  by code_simp

theorem response_length_budgets_witness:
  "length (response \<lparr>response = replicate 1497 (CHR ''x'') @ ''...'', db_update = None\<rparr>) \<le> 1500
   \<and> process_classified_message
        \<lparr>normalizer_of = Some, analyze = (\<lambda>_. None), categorize = (\<lambda>_. None),
          recommend = (\<lambda>_. []), chat = (\<lambda>_. Some (replicate 1600 (CHR ''x'')))\<rparr>
        \<lparr>action = ''general_conversation'', items = [], remove_all = False\<rparr>
        \<lparr>ingredients = [], last_updated = ''2024-01-01 10:00''\<rparr> ''hello''
       = Inr \<lparr>response = replicate 1497 (CHR ''x'') @ ''...'', db_update = None\<rparr>
   \<and> (\<exists>shown.
         process_classified_message
           \<lparr>normalizer_of = Some, analyze = (\<lambda>_. None), categorize = (\<lambda>_. None),
             recommend = (\<lambda>_. [\<lparr>r_name = ''Omelette'', r_description = ''Quick'',
                                    r_available = [''egg''], r_needed = [''butter''],
                                    r_difficulty = ''beginner'', r_cooking_time = ''10 minutes'',
                                    r_steps = [''Beat the eggs'', ''Fry'']\<rparr>,
                                  \<lparr>r_name = replicate 1307 (CHR ''a''), r_description = [],
                                    r_available = [], r_needed = [], r_difficulty = [],
                                    r_cooking_time = [], r_steps = []\<rparr>]),
             chat = (\<lambda>_. None)\<rparr>
           \<lparr>action = ''get_recipes'', items = [], remove_all = False\<rparr>
           \<lparr>ingredients = [], last_updated = ''2024-01-01 10:00''\<rparr> ''what can I cook''
         = Inr \<lparr>response = recipes_header @ concat shown
                              @ (if length shown < 2 then more_recipes_note (2 - length shown)
                                 else []),
                  db_update = None\<rparr>
         \<and> length (recipes_header @ concat shown) \<le> 1400)"
proof -
  let ?capsG = "\<lparr>normalizer_of = Some, analyze = (\<lambda>_. None), categorize = (\<lambda>_. None),
          recommend = (\<lambda>_. []), chat = (\<lambda>_. Some (replicate 1600 (CHR ''x'')))\<rparr>"
  let ?clsG = "\<lparr>action = ''general_conversation'', items = [], remove_all = False\<rparr>"
  let ?usr = "\<lparr>ingredients = [], last_updated = ''2024-01-01 10:00''\<rparr>"
  let ?rep = "\<lparr>response = replicate 1497 (CHR ''x'') @ ''...'', db_update = None\<rparr>"
  let ?recipes = "[\<lparr>r_name = ''Omelette'', r_description = ''Quick'',
                     r_available = [''egg''], r_needed = [''butter''],
                     r_difficulty = ''beginner'', r_cooking_time = ''10 minutes'',
                     r_steps = [''Beat the eggs'', ''Fry'']\<rparr>,
                   \<lparr>r_name = replicate 1307 (CHR ''a''), r_description = [],
                     r_available = [], r_needed = [], r_difficulty = [],
                     r_cooking_time = [], r_steps = []\<rparr>]"
  let ?capsR = "\<lparr>normalizer_of = Some, analyze = (\<lambda>_. None), categorize = (\<lambda>_. None),
             recommend = (\<lambda>_. ?recipes), chat = (\<lambda>_. None)\<rparr>"
  let ?clsR = "\<lparr>action = ''get_recipes'', items = [], remove_all = False\<rparr>"
  have g: "process_classified_message ?capsG ?clsG ?usr ''hello'' = Inr ?rep"
    by (simp add: process_classified_message_def generate_general_response_def)
  have n: "action ?clsG \<notin> set [''remove_inventory'', ''get_inventory'', ''update_inventory'',
                                   ''get_recipes'']"
    by simp
  have 1: "length (response ?rep) \<le> 1500"
    using response_length_budgets[where caps = ?capsG and cls = ?clsG and usr = ?usr
          and message = "''hello''" and rep = ?rep, THEN conjunct1]
      g n by blast
  have a: "action ?clsR = ''get_recipes''"
    by simp
  obtain shown where
    s: "process_classified_message ?capsR ?clsR ?usr ''what can I cook''
         = Inr \<lparr>response = recipes_header @ concat shown
                  @ (if length shown < length (recommend ?capsR ''what can I cook'')
                     then more_recipes_note
                            (length (recommend ?capsR ''what can I cook'') - length shown)
                     else []),
                  db_update = None\<rparr>"
    and l: "length (recipes_header @ concat shown) \<le> 1400"
    using response_length_budgets[where caps = ?capsR and cls = ?clsR and usr = ?usr
          and message = "''what can I cook''", THEN conjunct2, rule_format, OF a]
    by blast
  have len: "length (recommend ?capsR ''what can I cook'') = 2"
    by simp
  have 2: "\<exists>shown.
         process_classified_message ?capsR ?clsR ?usr ''what can I cook''
         = Inr \<lparr>response = recipes_header @ concat shown
                              @ (if length shown < 2 then more_recipes_note (2 - length shown)
                                 else []),
                  db_update = None\<rparr>
         \<and> length (recipes_header @ concat shown) \<le> 1400"
    using s l unfolding len by (intro exI[of _ shown] conjI)
  show ?thesis
    using 1 g 2 by (intro conjI)
qed

end
